theory Spec2Isabelle
  imports Main "HOL-Library.Char_ord"
begin

section \<open>Go values shared by the packages\<close>

text \<open>
  A Go \<^verbatim>\<open>string\<close> and a \<^verbatim>\<open>[]byte\<close> are byte sequences: both are \<^typ>\<open>string\<close> here, and
  \<^verbatim>\<open>len\<close> is \<^const>\<open>length\<close>. A nil slice is the empty list. A Go \<^verbatim>\<open>error\<close> produced by
  \<^verbatim>\<open>errors.New\<close>, \<^verbatim>\<open>fmt.Errorf\<close> or a library is represented by its message, so a
  fallible function returns \<^verbatim>\<open>Inl message\<close> or \<^verbatim>\<open>Inr value\<close>.
  A run-time panic is not an error value: a function that can panic returns an
  \<open>outcome\<close>.
\<close>

type_synonym bytes = string

datatype 'a outcome = Returns 'a | Panics string

section \<open>Package signer: the authentication configuration (config.go)\<close>

definition cloudKey :: string where
  "cloudKey = ''cloud''"

definition tenantIDKey :: string where
  "tenantIDKey = ''tenantID''"

definition aadClientIDKey :: string where
  "aadClientIDKey = ''aadClientID''"

definition aadClientSecretKey :: string where
  "aadClientSecretKey = ''aadClientSecret''"

definition useManagedIdentityKey :: string where
  "useManagedIdentityKey = ''useManagedIdentity''"

definition userAssignedIdentityIDKey :: string where
  "userAssignedIdentityIDKey = ''userAssignedIdentity''"

record authConfig =
  cloud :: string
  tenantID :: string
  aadClientID :: string
  aadClientSecret :: string
  useManagedIdentity :: bool
  userAssignedIdentityID :: string

text \<open>
  \<^verbatim>\<open>string(data[k])\<close> on a \<^verbatim>\<open>map[string][]byte\<close>: a missing key yields the nil slice,
  whose conversion is the empty string.
\<close>

definition index_map :: "(string \<rightharpoonup> bytes) \<Rightarrow> string \<Rightarrow> string" where
  "index_map data k = (case data k of None \<Rightarrow> [] | Some v \<Rightarrow> v)"

text \<open>
  Go's \<^verbatim>\<open>strconv.ParseBool\<close>: it accepts 1, t, T, TRUE, true, True, 0, f, F, FALSE,
  false, False; any other value is a syntax error whose message quotes the input.
  The quoting function (\<^verbatim>\<open>strconv.Quote\<close>, also behind the verb \<^verbatim>\<open>%q\<close>) is part of the
  Go library and is taken as the parameter \<open>quote\<close>.
\<close>

definition ParseBool :: "(string \<Rightarrow> string) \<Rightarrow> string \<Rightarrow> string + bool" where
  "ParseBool quote str =
     (if str \<in> set [''1'', ''t'', ''T'', ''TRUE'', ''true'', ''True''] then Inr True
      else if str \<in> set [''0'', ''f'', ''F'', ''FALSE'', ''false'', ''False''] then Inr False
      else Inl (''strconv.ParseBool: parsing '' @ quote str @ '': invalid syntax''))"

definition getConfigFromSecretData ::
  "(string \<Rightarrow> string) \<Rightarrow> (string \<rightharpoonup> bytes) \<Rightarrow> string + authConfig" where
  "getConfigFromSecretData quote data =
     (let config = \<lparr> cloud = index_map data cloudKey,
                      tenantID = index_map data tenantIDKey,
                      aadClientID = index_map data aadClientIDKey,
                      aadClientSecret = index_map data aadClientSecretKey,
                      useManagedIdentity = False,
                      userAssignedIdentityID = index_map data userAssignedIdentityIDKey \<rparr>
      in if index_map data useManagedIdentityKey \<noteq> []
         then (case ParseBool quote (index_map data useManagedIdentityKey) of
                 Inl err \<Rightarrow> Inl (''failed to parse auth config: '' @ err)
               | Inr b \<Rightarrow> Inr (config \<lparr> useManagedIdentity := b \<rparr>))
         else Inr config)"

text \<open>
  The spec's \<open>serialize\<close>, the inverse the round trip is stated against: the secret
  payload of a configuration holds each text field under its key and, under
  \<^verbatim>\<open>useManagedIdentity\<close>, the text \<open>b\<close> that stands for the flag.
\<close>

definition serialize :: "string \<Rightarrow> authConfig \<Rightarrow> (string \<rightharpoonup> bytes)" where
  "serialize b config =
     [cloudKey \<mapsto> cloud config,
      tenantIDKey \<mapsto> tenantID config,
      aadClientIDKey \<mapsto> aadClientID config,
      aadClientSecretKey \<mapsto> aadClientSecret config,
      useManagedIdentityKey \<mapsto> b,
      userAssignedIdentityIDKey \<mapsto> userAssignedIdentityID config]"

section \<open>Package signer: building the signer (signer.go)\<close>

text \<open>The fields of \<^verbatim>\<open>azure.Environment\<close> the program reads.\<close>

record Environment =
  ActiveDirectoryEndpoint :: string
  KeyVaultEndpoint :: string
  KeyVaultDNSSuffix :: string
  ServiceManagementEndpoint :: string

text \<open>
  The libraries the signer calls (go-autorest's \<^verbatim>\<open>azure\<close> and \<^verbatim>\<open>adal\<close>, the Key Vault
  client, cert-manager's \<^verbatim>\<open>pki\<close>, \<^verbatim>\<open>strconv\<close>) are not part of the repository. They are
  the fields of one record; \<open>'oc\<close> is \<^verbatim>\<open>adal.OAuthConfig\<close> and \<open>'tok\<close> is the token
  provider the \<^verbatim>\<open>adal\<close> constructors return.
\<close>

record x509CertificateRequest =
  RawSubject :: bytes
  DNSNames :: "string list"

record CertificateCreateParameters =
  Subject :: string
  SubjectAlternativeNames :: "string list"
  IssuerParametersName :: string

record ('oc, 'tok) libraries =
  Quote :: "string \<Rightarrow> string"
  PublicCloud :: Environment
  EnvironmentFromName :: "string \<Rightarrow> string + Environment"
  AddToUserAgent :: "string \<Rightarrow> string option"
  NewOAuthConfig :: "string \<Rightarrow> string \<Rightarrow> string + 'oc"
  GetMSIVMEndpoint :: "string + string"
  NewServicePrincipalTokenFromMSIWithUserAssignedID :: "string \<Rightarrow> string \<Rightarrow> string \<Rightarrow> string + 'tok"
  NewServicePrincipalTokenFromMSI :: "string \<Rightarrow> string \<Rightarrow> string + 'tok"
  NewServicePrincipalToken :: "'oc \<Rightarrow> string \<Rightarrow> string \<Rightarrow> string \<Rightarrow> string + 'tok"
  DecodeX509CertificateRequestBytes :: "bytes \<Rightarrow> string + x509CertificateRequest"
  CreateCertificate :: "'tok \<Rightarrow> string \<Rightarrow> string \<Rightarrow> CertificateCreateParameters \<Rightarrow> string option"

record 'tok caSigner =
  baseClient :: 'tok
  vaultURL :: string

definition parseCloudEnvironment ::
  "('oc, 'tok) libraries \<Rightarrow> string \<Rightarrow> string + Environment" where
  "parseCloudEnvironment L cloudName =
     (if cloudName = [] then Inr (PublicCloud L) else EnvironmentFromName L cloudName)"

text \<open>
  The pattern \<^verbatim>\<open>^[-A-Za-z0-9]+$\<close>: one or more bytes of the class, up to the end of the
  text (in Go's syntax \<^verbatim>\<open>$\<close> without the flag m matches at the end of the text only).
\<close>

definition vault_class :: "char \<Rightarrow> bool" where
  "vault_class c =
     (c = CHR ''-'' \<or> (CHR ''A'' \<le> c \<and> c \<le> CHR ''Z'') \<or> (CHR ''a'' \<le> c \<and> c \<le> CHR ''z'')
      \<or> (CHR ''0'' \<le> c \<and> c \<le> CHR ''9''))"

fun isValid :: "string \<Rightarrow> bool" where
  "isValid [] = False"
| "isValid [c] = vault_class c"
| "isValid (c # d # cs) = (vault_class c \<and> isValid (d # cs))"

definition getVaultURL ::
  "('oc, 'tok) libraries \<Rightarrow> Environment \<Rightarrow> string \<Rightarrow> string + string" where
  "getVaultURL L azureEnvironment vaultName =
     (if length vaultName < 3 \<or> length vaultName > 24
      then Inl (''invalid vault name: '' @ Quote L vaultName @ '', must be between 3 and 24 chars'')
      else if \<not> isValid vaultName
      then Inl (''invalid vault name: '' @ Quote L vaultName @ '', must match [-a-zA-Z0-9]{3,24}'')
      else Inr (''https://'' @ vaultName @ ''.'' @ KeyVaultDNSSuffix azureEnvironment @ ''/''))"

definition getServicePrincipalToken ::
  "('oc, 'tok) libraries \<Rightarrow> authConfig \<Rightarrow> Environment \<Rightarrow> string \<Rightarrow> string + 'tok" where
  "getServicePrincipalToken L config env resource =
     (case NewOAuthConfig L (ActiveDirectoryEndpoint env) (tenantID config) of
        Inl err \<Rightarrow> Inl (''failed to create OAuth config, error: '' @ err)
      | Inr oauthConfig \<Rightarrow>
          if useManagedIdentity config
          then (case GetMSIVMEndpoint L of
                  Inl err \<Rightarrow>
                    Inl (''failed to get managed service identity endpoint, error: '' @ err)
                | Inr msiEndpoint \<Rightarrow>
                    if length (userAssignedIdentityID config) > 0
                    then NewServicePrincipalTokenFromMSIWithUserAssignedID L msiEndpoint
                           (ServiceManagementEndpoint env) (userAssignedIdentityID config)
                    else NewServicePrincipalTokenFromMSI L msiEndpoint resource)
          else if length (aadClientID config) > 0 \<and> length (aadClientSecret config) > 0
          then NewServicePrincipalToken L oauthConfig (aadClientID config)
                 (aadClientSecret config) resource
          else Inl ''no credentials provided for accessing keyvault'')"

text \<open>
  \<^verbatim>\<open>s[i]\<close> on a string panics when the index is out of range; \<^verbatim>\<open>s[:n]\<close> keeps the first
  \<open>n\<close> bytes.
\<close>

definition index_string :: "string \<Rightarrow> int \<Rightarrow> char outcome" where
  "index_string s i =
     (if 0 \<le> i \<and> i < int (length s) then Returns (s ! nat i)
      else Panics (''runtime error: index out of range'') )"

definition getKeyvaultToken ::
  "('oc, 'tok) libraries \<Rightarrow> authConfig \<Rightarrow> Environment \<Rightarrow> (string + 'tok) outcome" where
  "getKeyvaultToken L config env =
     (let kvEndPoint = KeyVaultEndpoint env
      in case index_string kvEndPoint (int (length kvEndPoint) - 1) of
           Panics p \<Rightarrow> Panics p
         | Returns b \<Rightarrow>
             (let kvEndPoint' =
                    (if CHR ''/'' = b then take (length kvEndPoint - 1) kvEndPoint
                     else kvEndPoint)
              in case getServicePrincipalToken L config env kvEndPoint' of
                   Inl err \<Rightarrow> Returns (Inl err)
                 | Inr servicePrincipalToken \<Rightarrow> Returns (Inr servicePrincipalToken)))"

definition NewSigner ::
  "('oc, 'tok) libraries \<Rightarrow> (string \<rightharpoonup> bytes) \<Rightarrow> string \<Rightarrow> (string + 'tok caSigner) outcome" where
  "NewSigner L creds vaultName =
     (case AddToUserAgent L ''cert-manager-issuer'' of
        Some err \<Rightarrow>
          Returns (Inl (''failed to add user agent to keyvault client, error: '' @ err))
      | None \<Rightarrow>
     (case getConfigFromSecretData (Quote L) creds of
        Inl err \<Rightarrow> Returns (Inl err)
      | Inr config \<Rightarrow>
     (case parseCloudEnvironment L (cloud config) of
        Inl err \<Rightarrow> Returns (Inl err)
      | Inr env \<Rightarrow>
     (case getVaultURL L env vaultName of
        Inl err \<Rightarrow> Returns (Inl err)
      | Inr url \<Rightarrow>
     (case getKeyvaultToken L config env of
        Panics p \<Rightarrow> Panics p
      | Returns (Inl err) \<Rightarrow> Returns (Inl err)
      | Returns (Inr authorizer) \<Rightarrow>
          Returns (Inr \<lparr> baseClient = authorizer, vaultURL = url \<rparr>))))))"

text \<open>
  \<^verbatim>\<open>Sign\<close> discards the operation \<^verbatim>\<open>CreateCertificate\<close> returns and, when the call
  succeeds, returns \<^verbatim>\<open>nil, nil\<close>: the nil byte slice and no error.
\<close>

definition Sign ::
  "('oc, 'tok) libraries \<Rightarrow> 'tok caSigner \<Rightarrow> bytes \<Rightarrow> string \<Rightarrow> string \<Rightarrow> string + bytes" where
  "Sign L s certificateSigningRequest name issuerName =
     (case DecodeX509CertificateRequestBytes L certificateSigningRequest of
        Inl err \<Rightarrow> Inl (''failed to decode CSR: '' @ err)
      | Inr csr \<Rightarrow>
          (let params = \<lparr> Subject = RawSubject csr,
                          SubjectAlternativeNames = DNSNames csr,
                          IssuerParametersName = issuerName \<rparr>
           in case CreateCertificate L (baseClient s) (vaultURL s) name params of
                Some err \<Rightarrow> Inl (''failed to create certificate '' @ name @ '': '' @ err)
              | None \<Rightarrow> Inr []))"

section \<open>Package util: the Ready condition of an issuer (util.go)\<close>

text \<open>
  Modelled from the spec: the types of the package \<^verbatim>\<open>api/v1alpha1\<close>, which are declared
  outside the files at hand. A condition is \<^verbatim>\<open>{type, status, reason, message,
  lastTransitionTime}\<close>, the issuer's spec is \<^verbatim>\<open>{authSecretName, keyvaultName,
  issuerName}\<close> and its status holds the list of conditions. A condition's type and
  status are Go strings (\<^verbatim>\<open>"Ready"\<close>; \<^verbatim>\<open>"True"\<close>, \<^verbatim>\<open>"False"\<close>, \<^verbatim>\<open>"Unknown"\<close>), so the zero
  value of a status is the empty string. A point in time is a natural number.
\<close>

type_synonym time = nat

record Condition =
  Type :: string
  Status :: string
  LastTransitionTime :: "time option"
  Reason :: string
  Message :: string

definition ConditionReady :: string where
  "ConditionReady = ''Ready''"

definition ConditionTrue :: string where
  "ConditionTrue = ''True''"

definition ConditionFalse :: string where
  "ConditionFalse = ''False''"

definition ConditionUnknown :: string where
  "ConditionUnknown = ''Unknown''"

record IssuerSpec =
  AuthSecretName :: string
  KeyvaultName :: string
  IssuerName :: string

record IssuerStatus =
  Conditions :: "Condition list"

text \<open>
  A \<^verbatim>\<open>client.Object\<close> as the type switches see it: an \<^verbatim>\<open>*Issuer\<close>, a \<^verbatim>\<open>*ClusterIssuer\<close>,
  or an object of another type, given by what \<^verbatim>\<open>fmt\<close> prints for it under the verbs
  \<^verbatim>\<open>%v\<close> and \<^verbatim>\<open>%t\<close>.
\<close>

datatype Object =
    Issuer IssuerSpec IssuerStatus
  | ClusterIssuer IssuerSpec IssuerStatus
  | OtherObject string string

fun GetSpecAndStatus :: "Object \<Rightarrow> string + (IssuerSpec \<times> IssuerStatus)" where
  "GetSpecAndStatus (Issuer spec status) = Inr (spec, status)"
| "GetSpecAndStatus (ClusterIssuer spec status) = Inr (spec, status)"
| "GetSpecAndStatus (OtherObject v t) = Inl (''not an issuer type: '' @ t)"

definition GetReadyCondition :: "IssuerStatus \<Rightarrow> Condition option" where
  "GetReadyCondition status = find (\<lambda>c. Type c = ConditionReady) (Conditions status)"

text \<open>The final loop of \<^verbatim>\<open>SetReadyCondition\<close>: the first Ready entry is overwritten.\<close>

fun store_ready :: "Condition \<Rightarrow> Condition list \<Rightarrow> Condition list" where
  "store_ready ready [] = []"
| "store_ready ready (c # cs) =
     (if Type c = ConditionReady then ready # cs else c # store_ready ready cs)"

text \<open>
  \<^verbatim>\<open>GetReadyCondition\<close> returns the address of the loop variable, a copy: \<open>ready\<close> is a
  value of its own until the final loop writes it back. \<open>now\<close> is what \<^verbatim>\<open>metav1.Now()\<close>
  returns.
\<close>

definition SetReadyCondition ::
  "time \<Rightarrow> IssuerStatus \<Rightarrow> string \<Rightarrow> string \<Rightarrow> string \<Rightarrow> IssuerStatus" where
  "SetReadyCondition now status conditionStatus reason message =
     (let (ready, status1) =
            (case GetReadyCondition status of
               None \<Rightarrow>
                 (let fresh = \<lparr> Type = ConditionReady, Status = [],
                                LastTransitionTime = None, Reason = [], Message = [] \<rparr>
                  in (fresh, status \<lparr> Conditions := Conditions status @ [fresh] \<rparr>))
             | Some c \<Rightarrow> (c, status));
          ready1 = (if Status ready \<noteq> conditionStatus
                    then ready \<lparr> Status := conditionStatus, LastTransitionTime := Some now \<rparr>
                    else ready);
          ready2 = ready1 \<lparr> Reason := reason, Message := message \<rparr>
      in status1 \<lparr> Conditions := store_ready ready2 (Conditions status1) \<rparr>)"

definition IsReady :: "IssuerStatus \<Rightarrow> bool" where
  "IsReady status =
     (case GetReadyCondition status of Some c \<Rightarrow> Status c = ConditionTrue | None \<Rightarrow> False)"

text \<open>A sequence of \<^verbatim>\<open>SetReadyCondition\<close> calls, each with its clock reading.\<close>

fun SetReadyConditions ::
  "IssuerStatus \<Rightarrow> (time \<times> string \<times> string \<times> string) list \<Rightarrow> IssuerStatus" where
  "SetReadyConditions status [] = status"
| "SetReadyConditions status ((now, conditionStatus, reason, message) # calls) =
     SetReadyConditions (SetReadyCondition now status conditionStatus reason message) calls"

definition ready_count :: "Condition list \<Rightarrow> nat" where
  "ready_count cs = length (filter (\<lambda>c. Type c = ConditionReady) cs)"

text \<open>
  The Ready condition a call of \<^verbatim>\<open>SetReadyCondition\<close> starts from: the first Ready
  condition of the status or, when there is none, the zero condition of type Ready
  that the call appends.
\<close>

definition previous_ready :: "IssuerStatus \<Rightarrow> Condition" where
  "previous_ready status =
     (case GetReadyCondition status of
        Some c \<Rightarrow> c
      | None \<Rightarrow> \<lparr> Type = ConditionReady, Status = [], LastTransitionTime = None,
                   Reason = [], Message = [] \<rparr>)"

section \<open>Package controllers: the reconciliation of a CertificateRequest\<close>

subsection \<open>The request and cert-manager's condition helpers\<close>

text \<open>
  Modelled from the spec: the request type and the helpers of \<^verbatim>\<open>cmutil\<close>, which belong
  to cert-manager, outside the files at hand. A request carries its identity, \<^verbatim>\<open>issuerRef {group, kind,
  name}\<close>, the raw CSR bytes, the approval state (approved, denied or unknown), the list
  of conditions, an optional \<^verbatim>\<open>failureTime\<close> and the certificate bytes. \<^verbatim>\<open>Get\<close> is a linear
  lookup of the first condition of a type; \<^verbatim>\<open>Set\<close> replaces that condition in place or
  appends a new one, always writes reason and message, and stamps a new transition time
  unless the condition existed with the same status.
\<close>

datatype ApprovalState = Approved | Denied | Unknown

record CertificateRequest =
  Name :: string
  Namespace :: string
  IssuerRefGroup :: string
  IssuerRefKind :: string
  IssuerRefName :: string
  Request :: bytes
  Approval :: ApprovalState
  StatusConditions :: "Condition list"
  StatusFailureTime :: "time option"
  StatusCertificate :: bytes

definition ReasonPending :: string where
  "ReasonPending = ''Pending''"

definition ReasonFailed :: string where
  "ReasonFailed = ''Failed''"

definition ReasonIssued :: string where
  "ReasonIssued = ''Issued''"

definition ReasonDenied :: string where
  "ReasonDenied = ''Denied''"

definition GetCertificateRequestCondition ::
  "CertificateRequest \<Rightarrow> string \<Rightarrow> Condition option" where
  "GetCertificateRequestCondition cr conditionType =
     find (\<lambda>c. Type c = conditionType) (StatusConditions cr)"

definition CertificateRequestHasCondition ::
  "CertificateRequest \<Rightarrow> string \<Rightarrow> string \<Rightarrow> bool" where
  "CertificateRequestHasCondition cr conditionType status =
     list_ex (\<lambda>c. Type c = conditionType \<and> Status c = status) (StatusConditions cr)"

definition CertificateRequestIsDenied :: "CertificateRequest \<Rightarrow> bool" where
  "CertificateRequestIsDenied cr = (Approval cr = Denied)"

definition CertificateRequestIsApproved :: "CertificateRequest \<Rightarrow> bool" where
  "CertificateRequestIsApproved cr = (Approval cr = Approved)"

fun set_condition :: "time \<Rightarrow> Condition \<Rightarrow> Condition list \<Rightarrow> Condition list" where
  "set_condition now new [] = [new \<lparr> LastTransitionTime := Some now \<rparr>]"
| "set_condition now new (c # cs) =
     (if Type c = Type new
      then new \<lparr> LastTransitionTime :=
                   (if Status c = Status new then LastTransitionTime c else Some now) \<rparr> # cs
      else c # set_condition now new cs)"

definition SetCertificateRequestCondition ::
  "time \<Rightarrow> CertificateRequest \<Rightarrow> string \<Rightarrow> string \<Rightarrow> string \<Rightarrow> string \<Rightarrow> CertificateRequest" where
  "SetCertificateRequestCondition now cr conditionType status reason message =
     cr \<lparr> StatusConditions :=
            set_condition now
              \<lparr> Type = conditionType, Status = status, LastTransitionTime = None,
                Reason = reason, Message = message \<rparr>
              (StatusConditions cr) \<rparr>"

subsection \<open>The reconciler and what it returns\<close>

text \<open>
  The reconciler's struct: the client (\<^verbatim>\<open>Get\<close> for each kind of object read, and
  \<^verbatim>\<open>Status().Update\<close>), the scheme, the clock, and the two settings. A name is the
  pair of a namespace and a name. \<^verbatim>\<open>Scheme.New\<close> returns an error, an object that is a
  \<^verbatim>\<open>client.Object\<close>, or one that is not. \<^verbatim>\<open>Get\<close> of an issuer fills the object it is
  given. The first \<^verbatim>\<open>Get\<close> tells a missing request from any other failure.
\<close>

type_synonym NamespacedName = "string \<times> string"

datatype get_error = NotFound string | GetFailed string

datatype runtime_object = ClientObject Object | NotClientObject string

record CertificateRequestReconciler =
  GetCertificateRequest :: "NamespacedName \<Rightarrow> get_error + CertificateRequest"
  GetIssuer :: "NamespacedName \<Rightarrow> Object \<Rightarrow> string + Object"
  GetSecret :: "NamespacedName \<Rightarrow> string + (string \<rightharpoonup> bytes)"
  StatusUpdate :: "CertificateRequest \<Rightarrow> string option"
  SchemeNew :: "string \<Rightarrow> string + runtime_object"
  ClockNow :: time
  ClusterResourceNamespace :: string
  CheckApprovedCondition :: bool

text \<open>
  Values the controller reads from declarations outside the files at hand: the group
  of \<^verbatim>\<open>azureissuerv1alpha1.GroupVersion\<close>, the message of \<^verbatim>\<open>errGetAuthSecret\<close>, and the
  reading of the clock of \<^verbatim>\<open>cmutil\<close> that stamps a condition.
\<close>

record declarations =
  GroupVersionGroup :: string
  errGetAuthSecret :: string
  cmutilClockNow :: time

definition errIssuerRef :: string where
  "errIssuerRef = ''error interpreting issuerRef''"

definition errGetIssuer :: string where
  "errGetIssuer = ''error getting issuer''"

definition errIssuerNotReady :: string where
  "errIssuerNotReady = ''issuer is not ready''"

definition errSignerBuilder :: string where
  "errSignerBuilder = ''failed to build the signer''"

definition errSignerSign :: string where
  "errSignerSign = ''failed to sign''"

text \<open>
  The error \<^verbatim>\<open>Reconcile\<close> returns: an error given by its message, or the aggregate
  that \<^verbatim>\<open>utilerrors.NewAggregate\<close> builds from the errors of a list that are not nil.
\<close>

datatype error = Err string | Aggregate "error list"

definition NewAggregate :: "error option list \<Rightarrow> error option" where
  "NewAggregate errlist =
     (if errlist = [] then None
      else (let errs = List.map_filter (\<lambda>e. e) errlist
            in if errs = [] then None else Some (Aggregate errs)))"

record ctrl_Result =
  Requeue :: bool
  RequeueAfter :: nat

definition no_requeue :: ctrl_Result where
  "no_requeue = \<lparr> Requeue = False, RequeueAfter = 0 \<rparr>"

text \<open>
  What one invocation did: the values it returned (or the panic it ended with), the
  objects it passed to \<^verbatim>\<open>Status().Update\<close> in the order of the calls, and its local copy
  of the request at the end (none when the request was not fetched).
\<close>

record reconciliation =
  returned :: "(ctrl_Result \<times> error option) outcome"
  updates :: "CertificateRequest list"
  certificateRequest :: "CertificateRequest option"

definition IgnoreNotFound :: "get_error \<Rightarrow> string option" where
  "IgnoreNotFound e = (case e of NotFound m \<Rightarrow> None | GetFailed m \<Rightarrow> Some m)"

definition setReadyCondition ::
  "declarations \<Rightarrow> CertificateRequest \<Rightarrow> string \<Rightarrow> string \<Rightarrow> string \<Rightarrow> CertificateRequest" where
  "setReadyCondition D cr status reason message =
     SetCertificateRequestCondition (cmutilClockNow D) cr ConditionReady status reason message"

text \<open>
  The statements of \<^verbatim>\<open>Reconcile\<close> after the deferred function is registered, from the
  denied gate to the end: the result is the pair returned (the error by its message) or
  the panic, with the local copy of the request as the statements left it. The call of
  \<^verbatim>\<open>Sign\<close> passes the issuer's spec; the signer reads the issuer's name from it.
\<close>

text \<open>
  The type switch on the issuer: the name under which the issuer is read and the
  namespace of its secret, or the message of the default case.
\<close>

definition issuer_names ::
  "CertificateRequestReconciler \<Rightarrow> CertificateRequest \<Rightarrow> Object
     \<Rightarrow> string + (NamespacedName \<times> string)" where
  "issuer_names r cr issuer =
     (case issuer of
        Issuer spec status \<Rightarrow> Inr ((Namespace cr, IssuerRefName cr), Namespace cr)
      | ClusterIssuer spec status \<Rightarrow> Inr (([], IssuerRefName cr), ClusterResourceNamespace r)
      | OtherObject v t \<Rightarrow> Inl (''unexpected issuer type: '' @ v))"

definition reconcile_steps ::
  "('oc, 'tok) libraries \<Rightarrow> declarations \<Rightarrow> CertificateRequestReconciler \<Rightarrow> CertificateRequest
     \<Rightarrow> (ctrl_Result \<times> string option) outcome \<times> CertificateRequest" where
  "reconcile_steps L D r cr =
     (if CertificateRequestIsDenied cr
      then (let cr1 = (if StatusFailureTime cr = None
                       then cr \<lparr> StatusFailureTime := Some (ClockNow r) \<rparr> else cr)
            in (Returns (no_requeue, None),
                setReadyCondition D cr1 ConditionFalse ReasonDenied
                  ''The CertificateRequest was denied by an approval controller''))
      else if CheckApprovedCondition r \<and> \<not> CertificateRequestIsApproved cr
      then (Returns (no_requeue, None), cr)
      else if GetCertificateRequestCondition cr ConditionReady = None
      then (Returns (no_requeue, None),
            setReadyCondition D cr ConditionFalse ReasonPending ''Initializing'')
      else
     (case SchemeNew r (IssuerRefKind cr) of
        Inl err \<Rightarrow>
          (Returns (no_requeue, None),
           setReadyCondition D cr ConditionFalse ReasonFailed (errIssuerRef @ '': '' @ err))
      | Inr (NotClientObject p) \<Rightarrow> (Panics p, cr)
      | Inr (ClientObject issuer) \<Rightarrow>
     (case issuer_names r cr issuer of
        Inl err \<Rightarrow>
          (Returns (no_requeue, None), setReadyCondition D cr ConditionFalse ReasonFailed err)
      | Inr (issuerName, secretNamespace) \<Rightarrow>
     (case GetIssuer r issuerName issuer of
        Inl err \<Rightarrow> (Returns (no_requeue, Some (errGetIssuer @ '': '' @ err)), cr)
      | Inr issuer' \<Rightarrow>
     (case GetSpecAndStatus issuer' of
        Inl err \<Rightarrow>
          (Returns (no_requeue, None), setReadyCondition D cr ConditionFalse ReasonFailed err)
      | Inr (issuerSpec, issuerStatus) \<Rightarrow>
          if \<not> IsReady issuerStatus
          then (Returns (no_requeue, Some errIssuerNotReady), cr)
          else
     (case GetSecret r (secretNamespace, AuthSecretName issuerSpec) of
        Inl err \<Rightarrow>
          (Returns (no_requeue,
             Some (errGetAuthSecret D @ '', secret name: '' @ secretNamespace @ ''/''
                   @ AuthSecretName issuerSpec @ '', reason: '' @ err)), cr)
      | Inr secretData \<Rightarrow>
     (case NewSigner L secretData (KeyvaultName issuerSpec) of
        Panics p \<Rightarrow> (Panics p, cr)
      | Returns (Inl err) \<Rightarrow>
          (Returns (no_requeue,
             Some (''failed to get issuer client for '' @ IssuerName issuerSpec @ '': '' @ err)),
           cr)
      | Returns (Inr issuerClient) \<Rightarrow>
     (case Sign L issuerClient (Request cr) (Name cr) (IssuerName issuerSpec) of
        Inl err \<Rightarrow> (Returns (no_requeue, Some (errSignerSign @ '': '' @ err)), cr)
      | Inr signed \<Rightarrow>
          (Returns (no_requeue, None),
           setReadyCondition D (cr \<lparr> StatusCertificate := signed \<rparr>)
             ConditionTrue ReasonIssued ''Signed'')))))))))"

text \<open>
  The deferred function. It runs on every way out of the statements above, a panic
  included; at both places that can panic the named result \<^verbatim>\<open>err\<close> is nil. After a
  panic the values it assigns are not returned: the panic goes on.
\<close>

definition deferred_update ::
  "declarations \<Rightarrow> CertificateRequestReconciler
     \<Rightarrow> (ctrl_Result \<times> string option) outcome \<times> CertificateRequest \<Rightarrow> reconciliation" where
  "deferred_update D r leaving =
     (case leaving of
        (Panics p, cr) \<Rightarrow>
          \<lparr> returned = Panics p, updates = [cr], certificateRequest = Some cr \<rparr>
      | (Returns (result, err), cr) \<Rightarrow>
          (let cr1 = (case err of
                        Some m \<Rightarrow> setReadyCondition D cr ConditionFalse ReasonPending m
                      | None \<Rightarrow> cr)
           in case StatusUpdate r cr1 of
                Some updateErr \<Rightarrow>
                  \<lparr> returned =
                      Returns (no_requeue,
                               NewAggregate [map_option Err err, Some (Err updateErr)]),
                    updates = [cr1], certificateRequest = Some cr1 \<rparr>
              | None \<Rightarrow>
                  \<lparr> returned = Returns (result, map_option Err err),
                    updates = [cr1], certificateRequest = Some cr1 \<rparr>))"

text \<open>
  The request the deferred function passes to \<^verbatim>\<open>Status().Update\<close> when the statements
  return: the local copy, with Ready set to False and Pending and the error's message
  when the error returned is not nil.
\<close>

definition recorded ::
  "declarations \<Rightarrow> string option \<Rightarrow> CertificateRequest \<Rightarrow> CertificateRequest" where
  "recorded D err cr =
     (case err of
        Some m \<Rightarrow> setReadyCondition D cr ConditionFalse ReasonPending m
      | None \<Rightarrow> cr)"

definition Reconcile ::
  "('oc, 'tok) libraries \<Rightarrow> declarations \<Rightarrow> CertificateRequestReconciler \<Rightarrow> NamespacedName
     \<Rightarrow> reconciliation" where
  "Reconcile L D r req =
     (case GetCertificateRequest r req of
        Inl e \<Rightarrow>
          (case IgnoreNotFound e of
             Some m \<Rightarrow>
               \<lparr> returned = Returns (no_requeue, Some (Err (''unexpected get error: '' @ m))),
                 updates = [], certificateRequest = None \<rparr>
           | None \<Rightarrow>
               \<lparr> returned = Returns (no_requeue, None), updates = [],
                 certificateRequest = None \<rparr>)
      | Inr cr \<Rightarrow>
          if IssuerRefGroup cr \<noteq> GroupVersionGroup D
          then \<lparr> returned = Returns (no_requeue, None), updates = [],
                 certificateRequest = Some cr \<rparr>
          else if CertificateRequestHasCondition cr ConditionReady ConditionTrue
          then \<lparr> returned = Returns (no_requeue, None), updates = [],
                 certificateRequest = Some cr \<rparr>
          else deferred_update D r (reconcile_steps L D r cr))"

section \<open>Stand-ins for the collaborators, for concrete runs\<close>

text \<open>
  A concrete library, cluster and request on which the definitions above can be
  evaluated. The quoting function is right for printable ASCII text without quote or
  backslash; the OAuth configuration refuses an empty endpoint as \<^verbatim>\<open>adal\<close> does; a token
  provider is a text that says which constructor made it.
\<close>

definition sample_quote :: "string \<Rightarrow> string" where
  "sample_quote s = CHR 0x22 # s @ [CHR 0x22]"

definition sample_libraries :: "(string \<times> string, string) libraries" where
  "sample_libraries =
     \<lparr> Quote = sample_quote,
       PublicCloud =
         \<lparr> ActiveDirectoryEndpoint = ''https://login.microsoftonline.com/'',
           KeyVaultEndpoint = ''https://vault.azure.net/'',
           KeyVaultDNSSuffix = ''vault.azure.net'',
           ServiceManagementEndpoint = ''https://management.core.windows.net/'' \<rparr>,
       EnvironmentFromName =
         (\<lambda>name. Inl (''autorest/azure: There is no cloud environment matching the name ''
                      @ sample_quote name)),
       AddToUserAgent =
         (\<lambda>extension. if extension = [] then Some ''autorest: Extension was empty'' else None),
       NewOAuthConfig =
         (\<lambda>endpoint tenant.
            if endpoint = [] then Inl ''parameter activeDirectoryEndpoint cannot be empty''
            else Inr (endpoint, tenant)),
       GetMSIVMEndpoint = Inr ''http://169.254.169.254/metadata/identity/oauth2/token'',
       NewServicePrincipalTokenFromMSIWithUserAssignedID =
         (\<lambda>endpoint resource uid. Inr (''user-assigned identity '' @ uid @ '' for '' @ resource)),
       NewServicePrincipalTokenFromMSI =
         (\<lambda>endpoint resource. Inr (''system-assigned identity for '' @ resource)),
       NewServicePrincipalToken =
         (\<lambda>oauth clientID secret resource.
            Inr (''service principal '' @ clientID @ '' of tenant '' @ snd oauth @ '' for ''
                 @ resource)),
       DecodeX509CertificateRequestBytes =
         (\<lambda>b. if b = [] then Inl ''error decoding certificate request PEM block''
              else Inr \<lparr> RawSubject = b, DNSNames = [] \<rparr>),
       CreateCertificate = (\<lambda>authorizer url name params. None) \<rparr>"

definition sample_declarations :: declarations where
  "sample_declarations =
     \<lparr> GroupVersionGroup = ''azure-issuer.microsoft.com'',
       errGetAuthSecret = ''failed to get Secret containing Issuer credentials'',
       cmutilClockNow = 100 \<rparr>"

definition sample_config :: authConfig where
  "sample_config =
     \<lparr> cloud = [], tenantID = ''t'', aadClientID = ''c'', aadClientSecret = ''s'',
       useManagedIdentity = False, userAssignedIdentityID = [] \<rparr>"

definition sample_secret :: "string \<rightharpoonup> bytes" where
  "sample_secret =
     [''cloud'' \<mapsto> [], ''tenantID'' \<mapsto> ''t'', ''aadClientID'' \<mapsto> ''c'',
      ''aadClientSecret'' \<mapsto> ''s'']"

definition sample_condition :: "string \<Rightarrow> string \<Rightarrow> string \<Rightarrow> Condition" where
  "sample_condition status reason message =
     \<lparr> Type = ''Ready'', Status = status, LastTransitionTime = Some 1,
       Reason = reason, Message = message \<rparr>"

definition sample_request :: CertificateRequest where
  "sample_request =
     \<lparr> Name = ''req1'', Namespace = ''default'',
       IssuerRefGroup = ''azure-issuer.microsoft.com'', IssuerRefKind = ''Issuer'',
       IssuerRefName = ''my-issuer'', Request = ''csr'', Approval = Approved,
       StatusConditions = [sample_condition ''False'' ''Pending'' ''Initializing''],
       StatusFailureTime = None, StatusCertificate = [] \<rparr>"

definition sample_status :: IssuerStatus where
  "sample_status =
     \<lparr> Conditions =
         [\<lparr> Type = ''Synced'', Status = ''True'', LastTransitionTime = Some 2,
            Reason = ''Done'', Message = [] \<rparr>,
          sample_condition ''False'' ''Pending'' ''waiting''] \<rparr>"

definition sample_issuer :: "string \<Rightarrow> Object" where
  "sample_issuer vault =
     Issuer \<lparr> AuthSecretName = ''auth'', KeyvaultName = vault, IssuerName = ''my-issuer'' \<rparr>
            \<lparr> Conditions = [sample_condition ''True'' ''Success'' ''ok''] \<rparr>"

definition sample_reconciler ::
  "CertificateRequest \<Rightarrow> string \<Rightarrow> string option \<Rightarrow> CertificateRequestReconciler" where
  "sample_reconciler cr vault updateErr =
     \<lparr> GetCertificateRequest = (\<lambda>name. Inr cr),
       GetIssuer = (\<lambda>name obj. Inr (sample_issuer vault)),
       GetSecret = (\<lambda>name. Inr sample_secret),
       StatusUpdate = (\<lambda>obj. updateErr),
       SchemeNew =
         (\<lambda>kind. if kind = ''Issuer''
                 then Inr (ClientObject (Issuer \<lparr> AuthSecretName = [], KeyvaultName = [],
                                                 IssuerName = [] \<rparr> \<lparr> Conditions = [] \<rparr>))
                 else Inl (''no kind '' @ sample_quote kind @ '' is registered'')),
       ClockNow = 7,
       ClusterResourceNamespace = ''azure-issuer-system'',
       CheckApprovedCondition = False \<rparr>"

section \<open>The vault URL\<close>

lemma isValid_iff: "isValid v \<longleftrightarrow> v \<noteq> [] \<and> (\<forall>c\<in>set v. vault_class c)"
  by (induction v rule: isValid.induct) auto

text \<open>
  Claim C7. For every environment and vault name: a name whose length is outside 3 to 24
  or that holds a character outside the class \<^verbatim>\<open>[-A-Za-z0-9]\<close> is refused with an error
  that cites the name (as \<^verbatim>\<open>%q\<close> prints it); every name of length 3 to 24 made of
  characters of the class only is accepted and gives exactly
  \<^verbatim>\<open>https://{vaultName}.{KeyVaultDNSSuffix}/\<close>. The names \<^verbatim>\<open>ab\<close>,
  \<^verbatim>\<open>toolongvaultname-------123456\<close> and \<^verbatim>\<open>bad_name!\<close> are refused and \<^verbatim>\<open>my-vault1\<close> is
  accepted.
\<close>

theorem getVaultURL_validation:
  "(length v < 3 \<or> 24 < length v \<longrightarrow>
      getVaultURL L env v =
        Inl (''invalid vault name: '' @ Quote L v @ '', must be between 3 and 24 chars''))
   \<and> (3 \<le> length v \<and> length v \<le> 24 \<and> (\<exists>c\<in>set v. \<not> vault_class c) \<longrightarrow>
      getVaultURL L env v =
        Inl (''invalid vault name: '' @ Quote L v @ '', must match [-a-zA-Z0-9]{3,24}''))
   \<and> (3 \<le> length v \<and> length v \<le> 24 \<and> (\<forall>c\<in>set v. vault_class c) \<longrightarrow>
      getVaultURL L env v = Inr (''https://'' @ v @ ''.'' @ KeyVaultDNSSuffix env @ ''/''))
   \<and> isl (getVaultURL L env ''ab'')
   \<and> isl (getVaultURL L env ''toolongvaultname-------123456'')
   \<and> isl (getVaultURL L env ''bad_name!'')
   \<and> getVaultURL L env ''my-vault1'' = Inr (''https://my-vault1.'' @ KeyVaultDNSSuffix env @ ''/'')"
proof -
  have short: "length v < 3 \<or> 24 < length v \<Longrightarrow>
      getVaultURL L env v =
        Inl (''invalid vault name: '' @ Quote L v @ '', must be between 3 and 24 chars'')"
    by (auto simp: getVaultURL_def)
  have bad: "3 \<le> length v \<Longrightarrow> length v \<le> 24 \<Longrightarrow> \<exists>c\<in>set v. \<not> vault_class c \<Longrightarrow>
      getVaultURL L env v =
        Inl (''invalid vault name: '' @ Quote L v @ '', must match [-a-zA-Z0-9]{3,24}'')"
    by (auto simp: getVaultURL_def isValid_iff)
  have good: "3 \<le> length v \<Longrightarrow> length v \<le> 24 \<Longrightarrow> \<forall>c\<in>set v. vault_class c \<Longrightarrow>
      getVaultURL L env v = Inr (''https://'' @ v @ ''.'' @ KeyVaultDNSSuffix env @ ''/'')"
    by (auto simp: getVaultURL_def isValid_iff)
  have e1: "isl (getVaultURL L env ''ab'')"
    by (simp add: getVaultURL_def)
  have e2: "isl (getVaultURL L env ''toolongvaultname-------123456'')"
    by (simp add: getVaultURL_def)
  have e3: "isl (getVaultURL L env ''bad_name!'')"
    by (simp add: getVaultURL_def vault_class_def)
  have e4: "getVaultURL L env ''my-vault1'' =
      Inr (''https://my-vault1.'' @ KeyVaultDNSSuffix env @ ''/'')"
    by (simp add: getVaultURL_def vault_class_def)
  from short bad good e1 e2 e3 e4 show ?thesis by blast
qed

theorem getVaultURL_validation_witness:
  "getVaultURL sample_libraries (PublicCloud sample_libraries) ''ab'' =
     Inl (''invalid vault name: '' @ [CHR 0x22] @ ''ab'' @ [CHR 0x22]
          @ '', must be between 3 and 24 chars'')
   \<and> getVaultURL sample_libraries (PublicCloud sample_libraries) ''bad_name!'' =
     Inl (''invalid vault name: '' @ [CHR 0x22] @ ''bad_name!'' @ [CHR 0x22]
          @ '', must match [-a-zA-Z0-9]{3,24}'')
   \<and> getVaultURL sample_libraries (PublicCloud sample_libraries) ''my-vault1'' =
     Inr ''https://my-vault1.vault.azure.net/''"
proof -
  have a: "length ''ab'' < 3 \<or> 24 < length ''ab''"
    by simp
  have b: "3 \<le> length ''bad_name!'' \<and> length ''bad_name!'' \<le> 24
      \<and> (\<exists>c\<in>set ''bad_name!''. \<not> vault_class c)"
    by (simp add: vault_class_def)
  have c: "3 \<le> length ''my-vault1'' \<and> length ''my-vault1'' \<le> 24
      \<and> (\<forall>c\<in>set ''my-vault1''. vault_class c)"
    by (simp add: vault_class_def)
  from a getVaultURL_validation [of "''ab''" sample_libraries "PublicCloud sample_libraries"]
  have 1: "getVaultURL sample_libraries (PublicCloud sample_libraries) ''ab'' =
     Inl (''invalid vault name: '' @ Quote sample_libraries ''ab''
          @ '', must be between 3 and 24 chars'')"
    by blast
  from b getVaultURL_validation [of "''bad_name!''" sample_libraries "PublicCloud sample_libraries"]
  have 2: "getVaultURL sample_libraries (PublicCloud sample_libraries) ''bad_name!'' =
     Inl (''invalid vault name: '' @ Quote sample_libraries ''bad_name!''
          @ '', must match [-a-zA-Z0-9]{3,24}'')"
    by blast
  from c getVaultURL_validation [of "''my-vault1''" sample_libraries "PublicCloud sample_libraries"]
  have 3: "getVaultURL sample_libraries (PublicCloud sample_libraries) ''my-vault1'' =
     Inr (''https://'' @ ''my-vault1'' @ ''.''
          @ KeyVaultDNSSuffix (PublicCloud sample_libraries) @ ''/'')"
    by blast
  show ?thesis
    unfolding 1 2 3 by (simp add: sample_libraries_def sample_quote_def)
qed

section \<open>The token for the vault endpoint\<close>

lemma index_string_last:
  "s \<noteq> [] \<Longrightarrow> index_string s (int (length s) - 1) = Returns (last s)"
  by (cases s rule: rev_cases) (auto simp: index_string_def nth_append)

lemma sample_secret_config:
  "getConfigFromSecretData (Quote sample_libraries) sample_secret = Inr sample_config"
  by (simp add: getConfigFromSecretData_def sample_secret_def sample_config_def index_map_def
      cloudKey_def tenantIDKey_def aadClientIDKey_def aadClientSecretKey_def
      useManagedIdentityKey_def userAssignedIdentityIDKey_def)

lemma sample_vault_url:
  "getVaultURL L (PublicCloud sample_libraries) ''my-vault1'' =
     Inr ''https://my-vault1.vault.azure.net/''"
  by (simp add: getVaultURL_def vault_class_def sample_libraries_def)

text \<open>
  Claim C10. \<^verbatim>\<open>getKeyvaultToken\<close> reads the last byte of \<^verbatim>\<open>env.KeyVaultEndpoint\<close> without
  checking that the text is not empty: for every environment whose endpoint is empty
  the read is out of range and the function panics, and building a signer panics with
  it once the earlier steps have succeeded; for every environment whose endpoint is not
  empty the read is in range (it yields the last byte) and the function returns.
\<close>

theorem getKeyvaultToken_bounds:
  "(KeyVaultEndpoint env = [] \<longrightarrow> (\<exists>p. getKeyvaultToken L config env = Panics p))
   \<and> (KeyVaultEndpoint env \<noteq> [] \<longrightarrow>
        index_string (KeyVaultEndpoint env) (int (length (KeyVaultEndpoint env)) - 1) =
          Returns (last (KeyVaultEndpoint env))
        \<and> (\<exists>r. getKeyvaultToken L config env = Returns r))
   \<and> (AddToUserAgent L ''cert-manager-issuer'' = None
        \<and> getConfigFromSecretData (Quote L) creds = Inr config
        \<and> parseCloudEnvironment L (cloud config) = Inr env
        \<and> getVaultURL L env vaultName = Inr url
        \<and> KeyVaultEndpoint env = [] \<longrightarrow> (\<exists>p. NewSigner L creds vaultName = Panics p))"
proof -
  have a: "KeyVaultEndpoint env = [] \<Longrightarrow> \<exists>p. getKeyvaultToken L config env = Panics p"
    by (simp add: getKeyvaultToken_def index_string_def)
  have b: "KeyVaultEndpoint env \<noteq> [] \<Longrightarrow> \<exists>r. getKeyvaultToken L config env = Returns r"
    by (simp add: getKeyvaultToken_def index_string_last Let_def split: sum.split)
  have c: "AddToUserAgent L ''cert-manager-issuer'' = None \<Longrightarrow>
        getConfigFromSecretData (Quote L) creds = Inr config \<Longrightarrow>
        parseCloudEnvironment L (cloud config) = Inr env \<Longrightarrow>
        getVaultURL L env vaultName = Inr url \<Longrightarrow>
        KeyVaultEndpoint env = [] \<Longrightarrow> \<exists>p. NewSigner L creds vaultName = Panics p"
    using a by (auto simp: NewSigner_def)
  from a b c index_string_last [of "KeyVaultEndpoint env"] show ?thesis by blast
qed

theorem getKeyvaultToken_bounds_witness:
  "getKeyvaultToken sample_libraries sample_config
      ((PublicCloud sample_libraries) \<lparr> KeyVaultEndpoint := [] \<rparr>) =
     Panics ''runtime error: index out of range''
   \<and> getKeyvaultToken sample_libraries sample_config (PublicCloud sample_libraries) =
     Returns (Inr ''service principal c of tenant t for https://vault.azure.net'')
   \<and> NewSigner
        (sample_libraries
           \<lparr> PublicCloud := (PublicCloud sample_libraries) \<lparr> KeyVaultEndpoint := [] \<rparr> \<rparr>)
        sample_secret ''my-vault1'' =
     Panics ''runtime error: index out of range''"
proof -
  let ?env = "(PublicCloud sample_libraries) \<lparr> KeyVaultEndpoint := [] \<rparr>"
  let ?L = "sample_libraries \<lparr> PublicCloud := ?env \<rparr>"
  have e: "KeyVaultEndpoint ?env = []"
    by simp
  have ne: "KeyVaultEndpoint (PublicCloud sample_libraries) \<noteq> []"
    by (simp add: sample_libraries_def)
  have ua: "AddToUserAgent ?L ''cert-manager-issuer'' = None"
    by (simp add: sample_libraries_def)
  have cfg: "getConfigFromSecretData (Quote ?L) sample_secret = Inr sample_config"
    using sample_secret_config by simp
  have env: "parseCloudEnvironment ?L (cloud sample_config) = Inr ?env"
    by (simp add: parseCloudEnvironment_def sample_config_def)
  have url: "getVaultURL ?L ?env ''my-vault1'' = Inr ''https://my-vault1.vault.azure.net/''"
    by (simp add: getVaultURL_def vault_class_def sample_libraries_def)
  from e getKeyvaultToken_bounds [of ?env sample_libraries sample_config]
  obtain p where p: "getKeyvaultToken sample_libraries sample_config ?env = Panics p"
    by blast
  from ne getKeyvaultToken_bounds [of "PublicCloud sample_libraries" sample_libraries sample_config]
  obtain r where r:
    "getKeyvaultToken sample_libraries sample_config (PublicCloud sample_libraries) = Returns r"
    by blast
  from ua cfg env url e getKeyvaultToken_bounds [of ?env ?L sample_config sample_secret
      "''my-vault1''" "''https://my-vault1.vault.azure.net/''"]
  obtain q where q: "NewSigner ?L sample_secret ''my-vault1'' = Panics q"
    by blast
  have 1: "getKeyvaultToken sample_libraries sample_config ?env =
     Panics ''runtime error: index out of range''"
    using p by (simp add: getKeyvaultToken_def index_string_def)
  have 2: "getKeyvaultToken sample_libraries sample_config (PublicCloud sample_libraries) =
     Returns (Inr ''service principal c of tenant t for https://vault.azure.net'')"
    using r by (simp add: getKeyvaultToken_def index_string_def getServicePrincipalToken_def
        sample_libraries_def sample_config_def)
  have kt: "getKeyvaultToken ?L sample_config ?env = Panics ''runtime error: index out of range''"
    by (simp add: getKeyvaultToken_def index_string_def)
  have "NewSigner ?L sample_secret ''my-vault1'' = Panics ''runtime error: index out of range''"
    by (simp only: NewSigner_def ua cfg env url kt option.case sum.case outcome.case)
  with q have 3: "q = ''runtime error: index out of range''"
    by simp
  from 1 2 3 q show ?thesis by blast
qed

section \<open>Parsing the secret\<close>

lemmas key_defs = cloudKey_def tenantIDKey_def aadClientIDKey_def aadClientSecretKey_def
  useManagedIdentityKey_def userAssignedIdentityIDKey_def

lemma ParseBool_ok_nonempty: "ParseBool quote b = Inr v \<Longrightarrow> b \<noteq> []"
  by (auto simp: ParseBool_def)

lemma index_map_serialize:
  "index_map (extra ++ serialize b config) cloudKey = cloud config"
  "index_map (extra ++ serialize b config) tenantIDKey = tenantID config"
  "index_map (extra ++ serialize b config) aadClientIDKey = aadClientID config"
  "index_map (extra ++ serialize b config) aadClientSecretKey = aadClientSecret config"
  "index_map (extra ++ serialize b config) useManagedIdentityKey = b"
  "index_map (extra ++ serialize b config) userAssignedIdentityIDKey =
     userAssignedIdentityID config"
  by (simp_all add: index_map_def serialize_def key_defs map_add_def)

lemma index_map_case: "index_map data k = (case data k of None \<Rightarrow> [] | Some v \<Rightarrow> v)"
  by (simp add: index_map_def)

text \<open>
  Claim C9, as amended. For every configuration and every text \<open>b\<close> that \<^verbatim>\<open>strconv.ParseBool\<close>
  reads as the configuration's \<^verbatim>\<open>useManagedIdentity\<close>, parsing the serialized payload
  gives the configuration back, whatever other keys the payload holds. For every
  payload, each text field of the result is the value under its key, or the empty text
  when the key is missing; the flag is false when \<^verbatim>\<open>useManagedIdentity\<close> is missing or
  present with an empty value, and is what \<^verbatim>\<open>strconv.ParseBool\<close> reads when the value is
  not empty and parseable. A \<^verbatim>\<open>useManagedIdentity\<close> value that is present, not empty and
  not parseable is a configuration error.
\<close>

theorem getConfigFromSecretData_roundtrip:
  "(ParseBool quote b = Inr (useManagedIdentity config) \<longrightarrow>
      getConfigFromSecretData quote (extra ++ serialize b config) = Inr config)
   \<and> (data useManagedIdentityKey = None \<or> data useManagedIdentityKey = Some [] \<longrightarrow>
      getConfigFromSecretData quote data =
        Inr \<lparr> cloud = (case data cloudKey of None \<Rightarrow> [] | Some v \<Rightarrow> v),
              tenantID = (case data tenantIDKey of None \<Rightarrow> [] | Some v \<Rightarrow> v),
              aadClientID = (case data aadClientIDKey of None \<Rightarrow> [] | Some v \<Rightarrow> v),
              aadClientSecret = (case data aadClientSecretKey of None \<Rightarrow> [] | Some v \<Rightarrow> v),
              useManagedIdentity = False,
              userAssignedIdentityID =
                (case data userAssignedIdentityIDKey of None \<Rightarrow> [] | Some v \<Rightarrow> v) \<rparr>)
   \<and> (data useManagedIdentityKey = Some s \<and> s \<noteq> [] \<and> ParseBool quote s = Inr flag \<longrightarrow>
      getConfigFromSecretData quote data =
        Inr \<lparr> cloud = (case data cloudKey of None \<Rightarrow> [] | Some v \<Rightarrow> v),
              tenantID = (case data tenantIDKey of None \<Rightarrow> [] | Some v \<Rightarrow> v),
              aadClientID = (case data aadClientIDKey of None \<Rightarrow> [] | Some v \<Rightarrow> v),
              aadClientSecret = (case data aadClientSecretKey of None \<Rightarrow> [] | Some v \<Rightarrow> v),
              useManagedIdentity = flag,
              userAssignedIdentityID =
                (case data userAssignedIdentityIDKey of None \<Rightarrow> [] | Some v \<Rightarrow> v) \<rparr>)
   \<and> (data useManagedIdentityKey = Some s \<and> s \<noteq> [] \<and> ParseBool quote s = Inl e \<longrightarrow>
      getConfigFromSecretData quote data = Inl (''failed to parse auth config: '' @ e))"
proof -
  have rt: "ParseBool quote b = Inr (useManagedIdentity config) \<Longrightarrow>
      getConfigFromSecretData quote (extra ++ serialize b config) = Inr config"
  proof -
    assume p: "ParseBool quote b = Inr (useManagedIdentity config)"
    then have "b \<noteq> []"
      by (rule ParseBool_ok_nonempty)
    with p show ?thesis
      by (simp add: getConfigFromSecretData_def index_map_serialize)
  qed
  have flagless: "index_map data useManagedIdentityKey = []"
    if "data useManagedIdentityKey = None \<or> data useManagedIdentityKey = Some []"
    using that by (auto simp: index_map_def)
  have dflt: "getConfigFromSecretData quote data =
        Inr \<lparr> cloud = (case data cloudKey of None \<Rightarrow> [] | Some v \<Rightarrow> v),
              tenantID = (case data tenantIDKey of None \<Rightarrow> [] | Some v \<Rightarrow> v),
              aadClientID = (case data aadClientIDKey of None \<Rightarrow> [] | Some v \<Rightarrow> v),
              aadClientSecret = (case data aadClientSecretKey of None \<Rightarrow> [] | Some v \<Rightarrow> v),
              useManagedIdentity = False,
              userAssignedIdentityID =
                (case data userAssignedIdentityIDKey of None \<Rightarrow> [] | Some v \<Rightarrow> v) \<rparr>"
    if "data useManagedIdentityKey = None \<or> data useManagedIdentityKey = Some []"
    using flagless [OF that]
    by (simp add: getConfigFromSecretData_def) (simp add: index_map_case)
  have flagged: "index_map data useManagedIdentityKey = s"
    if "data useManagedIdentityKey = Some s"
    using that by (simp add: index_map_def)
  have good: "getConfigFromSecretData quote data =
        Inr \<lparr> cloud = (case data cloudKey of None \<Rightarrow> [] | Some v \<Rightarrow> v),
              tenantID = (case data tenantIDKey of None \<Rightarrow> [] | Some v \<Rightarrow> v),
              aadClientID = (case data aadClientIDKey of None \<Rightarrow> [] | Some v \<Rightarrow> v),
              aadClientSecret = (case data aadClientSecretKey of None \<Rightarrow> [] | Some v \<Rightarrow> v),
              useManagedIdentity = flag,
              userAssignedIdentityID =
                (case data userAssignedIdentityIDKey of None \<Rightarrow> [] | Some v \<Rightarrow> v) \<rparr>"
    if "data useManagedIdentityKey = Some s" "s \<noteq> []" "ParseBool quote s = Inr flag"
    using flagged [OF that(1)] that(2,3)
    by (simp add: getConfigFromSecretData_def) (simp add: index_map_case)
  have bad: "getConfigFromSecretData quote data = Inl (''failed to parse auth config: '' @ e)"
    if "data useManagedIdentityKey = Some s" "s \<noteq> []" "ParseBool quote s = Inl e"
    using flagged [OF that(1)] that(2,3)
    by (simp add: getConfigFromSecretData_def)
  from rt dflt good bad show ?thesis by blast
qed

text \<open>
  Claim C9 as first stated fails: a \<^verbatim>\<open>useManagedIdentity\<close> key present with the empty
  value is not parseable as a boolean, yet the parser reports no error and sets the flag
  to false, since it parses the value only when it is not empty.
\<close>

theorem getConfigFromSecretData_empty_flag_counterexample:
  "[useManagedIdentityKey \<mapsto> []] useManagedIdentityKey = Some []
   \<and> isl (ParseBool sample_quote [])
   \<and> getConfigFromSecretData sample_quote [useManagedIdentityKey \<mapsto> []] =
       Inr \<lparr> cloud = [], tenantID = [], aadClientID = [], aadClientSecret = [],
             useManagedIdentity = False, userAssignedIdentityID = [] \<rparr>"
  by (simp add: getConfigFromSecretData_def index_map_def ParseBool_def key_defs)

text \<open>The theorem at concrete inputs.\<close>

theorem getConfigFromSecretData_roundtrip_witness:
  "getConfigFromSecretData sample_quote
      ([''keyvaultName'' \<mapsto> ''my-vault1'']
         ++ serialize ''true'' (sample_config \<lparr> useManagedIdentity := True \<rparr>)) =
     Inr (sample_config \<lparr> useManagedIdentity := True \<rparr>)
   \<and> getConfigFromSecretData sample_quote sample_secret = Inr sample_config
   \<and> getConfigFromSecretData sample_quote
        [useManagedIdentityKey \<mapsto> ''true'', userAssignedIdentityIDKey \<mapsto> ''uid''] =
       Inr \<lparr> cloud = [], tenantID = [], aadClientID = [], aadClientSecret = [],
             useManagedIdentity = True, userAssignedIdentityID = ''uid'' \<rparr>
   \<and> getConfigFromSecretData sample_quote (sample_secret (useManagedIdentityKey \<mapsto> ''yes'')) =
       Inl (''failed to parse auth config: strconv.ParseBool: parsing '' @ [CHR 0x22]
            @ ''yes'' @ [CHR 0x22] @ '': invalid syntax'')"
proof -
  let ?c = "sample_config \<lparr> useManagedIdentity := True \<rparr>"
  let ?d = "[useManagedIdentityKey \<mapsto> ''true'', userAssignedIdentityIDKey \<mapsto> ''uid'']"
  let ?bad = "sample_secret (useManagedIdentityKey \<mapsto> ''yes'')"
  have pb: "ParseBool sample_quote ''true'' = Inr (useManagedIdentity ?c)"
    by (simp add: ParseBool_def)
  have none: "sample_secret useManagedIdentityKey = None \<or>
      sample_secret useManagedIdentityKey = Some []"
    by (simp add: sample_secret_def key_defs)
  have flag: "?d useManagedIdentityKey = Some ''true'' \<and> ''true'' \<noteq> []
      \<and> ParseBool sample_quote ''true'' = Inr True"
    by (simp add: ParseBool_def key_defs)
  have some: "?bad useManagedIdentityKey = Some ''yes'' \<and> ''yes'' \<noteq> []
      \<and> ParseBool sample_quote ''yes'' =
          Inl (''strconv.ParseBool: parsing '' @ sample_quote ''yes'' @ '': invalid syntax'')"
    by (simp add: ParseBool_def)
  from pb getConfigFromSecretData_roundtrip [where quote = sample_quote and b = "''true''"
      and config = ?c and extra = "[''keyvaultName'' \<mapsto> ''my-vault1'']"]
  have 1: "getConfigFromSecretData sample_quote
      ([''keyvaultName'' \<mapsto> ''my-vault1''] ++ serialize ''true'' ?c) = Inr ?c"
    by blast
  from none getConfigFromSecretData_roundtrip [where quote = sample_quote and data = sample_secret]
  have "getConfigFromSecretData sample_quote sample_secret =
        Inr \<lparr> cloud = (case sample_secret cloudKey of None \<Rightarrow> [] | Some v \<Rightarrow> v),
              tenantID = (case sample_secret tenantIDKey of None \<Rightarrow> [] | Some v \<Rightarrow> v),
              aadClientID = (case sample_secret aadClientIDKey of None \<Rightarrow> [] | Some v \<Rightarrow> v),
              aadClientSecret =
                (case sample_secret aadClientSecretKey of None \<Rightarrow> [] | Some v \<Rightarrow> v),
              useManagedIdentity = False,
              userAssignedIdentityID =
                (case sample_secret userAssignedIdentityIDKey of None \<Rightarrow> [] | Some v \<Rightarrow> v) \<rparr>"
    by blast
  then have 2: "getConfigFromSecretData sample_quote sample_secret = Inr sample_config"
    by (simp add: sample_secret_def sample_config_def key_defs)
  from flag getConfigFromSecretData_roundtrip [where quote = sample_quote and data = ?d
      and s = "''true''" and flag = True]
  have "getConfigFromSecretData sample_quote ?d =
        Inr \<lparr> cloud = (case ?d cloudKey of None \<Rightarrow> [] | Some v \<Rightarrow> v),
              tenantID = (case ?d tenantIDKey of None \<Rightarrow> [] | Some v \<Rightarrow> v),
              aadClientID = (case ?d aadClientIDKey of None \<Rightarrow> [] | Some v \<Rightarrow> v),
              aadClientSecret = (case ?d aadClientSecretKey of None \<Rightarrow> [] | Some v \<Rightarrow> v),
              useManagedIdentity = True,
              userAssignedIdentityID =
                (case ?d userAssignedIdentityIDKey of None \<Rightarrow> [] | Some v \<Rightarrow> v) \<rparr>"
    by blast
  then have 3: "getConfigFromSecretData sample_quote ?d =
       Inr \<lparr> cloud = [], tenantID = [], aadClientID = [], aadClientSecret = [],
             useManagedIdentity = True, userAssignedIdentityID = ''uid'' \<rparr>"
    by (simp add: key_defs)
  from some getConfigFromSecretData_roundtrip [where quote = sample_quote and data = ?bad
      and s = "''yes''"]
  have "getConfigFromSecretData sample_quote ?bad =
      Inl (''failed to parse auth config: ''
           @ (''strconv.ParseBool: parsing '' @ sample_quote ''yes'' @ '': invalid syntax''))"
    by blast
  then have 4: "getConfigFromSecretData sample_quote ?bad =
       Inl (''failed to parse auth config: strconv.ParseBool: parsing '' @ [CHR 0x22]
            @ ''yes'' @ [CHR 0x22] @ '': invalid syntax'')"
    by (simp add: sample_quote_def)
  from 1 2 3 4 show ?thesis by blast
qed

section \<open>The credential strategies\<close>


lemma getKeyvaultToken_resource:
  "KeyVaultEndpoint env \<noteq> [] \<Longrightarrow>
   getKeyvaultToken L config env =
     Returns (getServicePrincipalToken L config env
       (if last (KeyVaultEndpoint env) = CHR ''/'' then butlast (KeyVaultEndpoint env)
        else KeyVaultEndpoint env))"
  by (auto simp: getKeyvaultToken_def index_string_last Let_def butlast_conv_take
      split: sum.split)

text \<open>
  Claim C6, as amended. The builder first creates the OAuth configuration from
  \<^verbatim>\<open>env.ActiveDirectoryEndpoint\<close> and \<^verbatim>\<open>tenantID\<close>; when that fails it returns the error
  \<^verbatim>\<open>failed to create OAuth config\<close> whatever the credentials are. When it succeeds, exactly
  one strategy is selected, in this order: with \<^verbatim>\<open>useManagedIdentity\<close>, once the endpoint of
  the managed identity service is obtained, a non-empty \<^verbatim>\<open>userAssignedIdentityID\<close> gives
  the user-assigned token source and an empty one the system-assigned token source for
  the resource; otherwise a non-empty \<^verbatim>\<open>aadClientID\<close> and \<^verbatim>\<open>aadClientSecret\<close> give the
  service-principal token source for the resource and the OAuth configuration (hence
  the tenant); otherwise the error is \<^verbatim>\<open>no credentials provided for accessing keyvault\<close>.
  The resource \<^verbatim>\<open>getKeyvaultToken\<close> passes is the vault endpoint without its one trailing
  slash, if it has one.
\<close>

theorem getServicePrincipalToken_strategy:
  "(NewOAuthConfig L (ActiveDirectoryEndpoint env) (tenantID config) = Inl e \<longrightarrow>
      getServicePrincipalToken L config env resource =
        Inl (''failed to create OAuth config, error: '' @ e))
   \<and> (NewOAuthConfig L (ActiveDirectoryEndpoint env) (tenantID config) = Inr oauthConfig \<longrightarrow>
      (useManagedIdentity config \<and> GetMSIVMEndpoint L = Inl e \<longrightarrow>
         getServicePrincipalToken L config env resource =
           Inl (''failed to get managed service identity endpoint, error: '' @ e))
      \<and> (useManagedIdentity config \<and> GetMSIVMEndpoint L = Inr msiEndpoint
          \<and> userAssignedIdentityID config \<noteq> [] \<longrightarrow>
         getServicePrincipalToken L config env resource =
           NewServicePrincipalTokenFromMSIWithUserAssignedID L msiEndpoint
             (ServiceManagementEndpoint env) (userAssignedIdentityID config))
      \<and> (useManagedIdentity config \<and> GetMSIVMEndpoint L = Inr msiEndpoint
          \<and> userAssignedIdentityID config = [] \<longrightarrow>
         getServicePrincipalToken L config env resource =
           NewServicePrincipalTokenFromMSI L msiEndpoint resource)
      \<and> (\<not> useManagedIdentity config \<and> aadClientID config \<noteq> []
          \<and> aadClientSecret config \<noteq> [] \<longrightarrow>
         getServicePrincipalToken L config env resource =
           NewServicePrincipalToken L oauthConfig (aadClientID config)
             (aadClientSecret config) resource)
      \<and> (\<not> useManagedIdentity config
          \<and> (aadClientID config = [] \<or> aadClientSecret config = []) \<longrightarrow>
         getServicePrincipalToken L config env resource =
           Inl ''no credentials provided for accessing keyvault''))
   \<and> (KeyVaultEndpoint env = stem @ ''/'' \<longrightarrow>
        getKeyvaultToken L config env = Returns (getServicePrincipalToken L config env stem))
   \<and> (KeyVaultEndpoint env \<noteq> [] \<and> last (KeyVaultEndpoint env) \<noteq> CHR ''/'' \<longrightarrow>
        getKeyvaultToken L config env =
          Returns (getServicePrincipalToken L config env (KeyVaultEndpoint env)))"
proof -
  have a: "NewOAuthConfig L (ActiveDirectoryEndpoint env) (tenantID config) = Inl e \<Longrightarrow>
      getServicePrincipalToken L config env resource =
        Inl (''failed to create OAuth config, error: '' @ e)"
    by (simp add: getServicePrincipalToken_def)
  have b: "NewOAuthConfig L (ActiveDirectoryEndpoint env) (tenantID config) = Inr oauthConfig \<Longrightarrow>
      useManagedIdentity config \<Longrightarrow> GetMSIVMEndpoint L = Inl e \<Longrightarrow>
         getServicePrincipalToken L config env resource =
           Inl (''failed to get managed service identity endpoint, error: '' @ e)"
    by (simp add: getServicePrincipalToken_def)
  have c: "NewOAuthConfig L (ActiveDirectoryEndpoint env) (tenantID config) = Inr oauthConfig \<Longrightarrow>
      useManagedIdentity config \<Longrightarrow> GetMSIVMEndpoint L = Inr msiEndpoint \<Longrightarrow>
      userAssignedIdentityID config \<noteq> [] \<Longrightarrow>
         getServicePrincipalToken L config env resource =
           NewServicePrincipalTokenFromMSIWithUserAssignedID L msiEndpoint
             (ServiceManagementEndpoint env) (userAssignedIdentityID config)"
    by (simp add: getServicePrincipalToken_def)
  have d: "NewOAuthConfig L (ActiveDirectoryEndpoint env) (tenantID config) = Inr oauthConfig \<Longrightarrow>
      useManagedIdentity config \<Longrightarrow> GetMSIVMEndpoint L = Inr msiEndpoint \<Longrightarrow>
      userAssignedIdentityID config = [] \<Longrightarrow>
         getServicePrincipalToken L config env resource =
           NewServicePrincipalTokenFromMSI L msiEndpoint resource"
    by (simp add: getServicePrincipalToken_def)
  have f: "NewOAuthConfig L (ActiveDirectoryEndpoint env) (tenantID config) = Inr oauthConfig \<Longrightarrow>
      \<not> useManagedIdentity config \<Longrightarrow> aadClientID config \<noteq> [] \<Longrightarrow>
      aadClientSecret config \<noteq> [] \<Longrightarrow>
         getServicePrincipalToken L config env resource =
           NewServicePrincipalToken L oauthConfig (aadClientID config)
             (aadClientSecret config) resource"
    by (simp add: getServicePrincipalToken_def)
  have g: "NewOAuthConfig L (ActiveDirectoryEndpoint env) (tenantID config) = Inr oauthConfig \<Longrightarrow>
      \<not> useManagedIdentity config \<Longrightarrow> aadClientID config = [] \<or> aadClientSecret config = [] \<Longrightarrow>
         getServicePrincipalToken L config env resource =
           Inl ''no credentials provided for accessing keyvault''"
    by (auto simp: getServicePrincipalToken_def)
  have h: "KeyVaultEndpoint env = stem @ ''/'' \<Longrightarrow>
        getKeyvaultToken L config env = Returns (getServicePrincipalToken L config env stem)"
    by (simp add: getKeyvaultToken_resource)
  have i: "KeyVaultEndpoint env \<noteq> [] \<Longrightarrow> last (KeyVaultEndpoint env) \<noteq> CHR ''/'' \<Longrightarrow>
        getKeyvaultToken L config env =
          Returns (getServicePrincipalToken L config env (KeyVaultEndpoint env))"
    by (simp add: getKeyvaultToken_resource)
  from a b c d f g h i show ?thesis by blast
qed

text \<open>
  Claim C6 as first stated fails: with client ID and client secret present and managed
  identity off, an environment whose Active Directory endpoint the OAuth configuration
  refuses gives neither a service-principal token source nor the error
  \<^verbatim>\<open>no credentials provided\<close>.
\<close>

theorem getServicePrincipalToken_oauth_counterexample:
  "\<not> useManagedIdentity sample_config
   \<and> aadClientID sample_config \<noteq> [] \<and> aadClientSecret sample_config \<noteq> []
   \<and> getServicePrincipalToken sample_libraries sample_config
        ((PublicCloud sample_libraries) \<lparr> ActiveDirectoryEndpoint := [] \<rparr>)
        ''https://vault.azure.net'' =
      Inl ''failed to create OAuth config, error: parameter activeDirectoryEndpoint cannot be empty''"
  by (simp add: getServicePrincipalToken_def sample_libraries_def sample_config_def)

text \<open>The theorem at concrete inputs.\<close>

theorem getServicePrincipalToken_strategy_witness:
  "getServicePrincipalToken sample_libraries
      (sample_config \<lparr> useManagedIdentity := True, userAssignedIdentityID := ''uid'' \<rparr>)
      (PublicCloud sample_libraries) ''https://vault.azure.net'' =
     Inr ''user-assigned identity uid for https://management.core.windows.net/''
   \<and> getServicePrincipalToken sample_libraries
      (sample_config \<lparr> useManagedIdentity := True \<rparr>)
      (PublicCloud sample_libraries) ''https://vault.azure.net'' =
     Inr ''system-assigned identity for https://vault.azure.net''
   \<and> getServicePrincipalToken sample_libraries sample_config
      (PublicCloud sample_libraries) ''https://vault.azure.net'' =
     Inr ''service principal c of tenant t for https://vault.azure.net''
   \<and> getServicePrincipalToken sample_libraries (sample_config \<lparr> aadClientSecret := [] \<rparr>)
      (PublicCloud sample_libraries) ''https://vault.azure.net'' =
     Inl ''no credentials provided for accessing keyvault''
   \<and> getKeyvaultToken sample_libraries sample_config (PublicCloud sample_libraries) =
     Returns (Inr ''service principal c of tenant t for https://vault.azure.net'')"
proof -
  let ?env = "PublicCloud sample_libraries"
  let ?ep = "''https://login.microsoftonline.com/''"
  let ?msi = "''http://169.254.169.254/metadata/identity/oauth2/token''"
  have oc: "\<And>c. tenantID c = ''t'' \<Longrightarrow>
      NewOAuthConfig sample_libraries (ActiveDirectoryEndpoint ?env) (tenantID c) = Inr (?ep, ''t'')"
    by (simp add: sample_libraries_def)
  have msi: "GetMSIVMEndpoint sample_libraries = Inr ?msi"
    by (simp add: sample_libraries_def)
  have kv: "KeyVaultEndpoint ?env = ''https://vault.azure.net'' @ ''/''"
    by (simp add: sample_libraries_def)
  let ?c1 = "sample_config \<lparr> useManagedIdentity := True, userAssignedIdentityID := ''uid'' \<rparr>"
  let ?c2 = "sample_config \<lparr> useManagedIdentity := True \<rparr>"
  let ?c4 = "sample_config \<lparr> aadClientSecret := [] \<rparr>"
  have t: "tenantID ?c1 = ''t''" "tenantID ?c2 = ''t''" "tenantID sample_config = ''t''"
    "tenantID ?c4 = ''t''"
    by (simp_all add: sample_config_def)
  have p1: "useManagedIdentity ?c1 \<and> userAssignedIdentityID ?c1 \<noteq> []"
    by simp
  have p2: "useManagedIdentity ?c2 \<and> userAssignedIdentityID ?c2 = []"
    by (simp add: sample_config_def)
  have p3: "\<not> useManagedIdentity sample_config \<and> aadClientID sample_config \<noteq> []
      \<and> aadClientSecret sample_config \<noteq> []"
    by (simp add: sample_config_def)
  have p4: "\<not> useManagedIdentity ?c4 \<and> (aadClientID ?c4 = [] \<or> aadClientSecret ?c4 = [])"
    by (simp add: sample_config_def)
  from oc [OF t(1)] msi p1
    getServicePrincipalToken_strategy [of sample_libraries ?env ?c1 _ _ "(?ep, ''t'')" ?msi]
  have 1: "getServicePrincipalToken sample_libraries ?c1 ?env ''https://vault.azure.net'' =
      NewServicePrincipalTokenFromMSIWithUserAssignedID sample_libraries ?msi
        (ServiceManagementEndpoint ?env) (userAssignedIdentityID ?c1)"
    by blast
  from oc [OF t(2)] msi p2
    getServicePrincipalToken_strategy [of sample_libraries ?env ?c2 _ _ "(?ep, ''t'')" ?msi]
  have 2: "getServicePrincipalToken sample_libraries ?c2 ?env ''https://vault.azure.net'' =
      NewServicePrincipalTokenFromMSI sample_libraries ?msi ''https://vault.azure.net''"
    by blast
  from oc [OF t(3)] p3
    getServicePrincipalToken_strategy [of sample_libraries ?env sample_config _ _ "(?ep, ''t'')"]
  have 3: "getServicePrincipalToken sample_libraries sample_config ?env ''https://vault.azure.net'' =
      NewServicePrincipalToken sample_libraries (?ep, ''t'') (aadClientID sample_config)
        (aadClientSecret sample_config) ''https://vault.azure.net''"
    by blast
  from oc [OF t(4)] p4
    getServicePrincipalToken_strategy [of sample_libraries ?env ?c4 _ _ "(?ep, ''t'')"]
  have 4: "getServicePrincipalToken sample_libraries ?c4 ?env ''https://vault.azure.net'' =
      Inl ''no credentials provided for accessing keyvault''"
    by blast
  from kv getServicePrincipalToken_strategy [of sample_libraries ?env sample_config _ _ _ _
      "''https://vault.azure.net''"]
  have 5: "getKeyvaultToken sample_libraries sample_config ?env =
      Returns (getServicePrincipalToken sample_libraries sample_config ?env ''https://vault.azure.net'')"
    by blast
  show ?thesis
    unfolding 5 unfolding 1 2 3 4
    by (simp add: sample_libraries_def sample_config_def)
qed

section \<open>The Ready condition of an issuer\<close>

lemma ready_count_store: "ready_count (store_ready r cs) = ready_count cs" if "Type r = ConditionReady"
  using that by (induction cs) (auto simp: ready_count_def)

lemma find_store_ready:
  "find (\<lambda>c. Type c = ConditionReady) cs \<noteq> None \<Longrightarrow> Type r = ConditionReady \<Longrightarrow>
   find (\<lambda>c. Type c = ConditionReady) (store_ready r cs) = Some r"
  by (induction cs) auto

lemma find_none_count: "find (\<lambda>c. Type c = ConditionReady) cs = None \<longleftrightarrow> ready_count cs = 0"
  by (induction cs) (auto simp: ready_count_def)

lemma find_some_type: "find P cs = Some c \<Longrightarrow> P c"
  by (induction cs) (auto split: if_splits)

lemma find_append_fresh:
  "find P cs = None \<Longrightarrow> P x \<Longrightarrow> find P (cs @ [x]) = Some x"
  by (induction cs) (auto split: if_splits)

lemma SetReadyCondition_count:
  "ready_count (Conditions (SetReadyCondition now status cs reason message)) =
     max 1 (ready_count (Conditions status))"
proof (cases "GetReadyCondition status")
  case None
  then have z: "ready_count (Conditions status) = 0"
    by (simp add: GetReadyCondition_def find_none_count)
  from None show ?thesis
    by (simp add: SetReadyCondition_def Let_def ready_count_store z)
       (simp add: ready_count_def z [unfolded ready_count_def])
next
  case (Some c)
  then have t: "Type c = ConditionReady"
    unfolding GetReadyCondition_def by (auto dest: find_some_type)
  from Some have "ready_count (Conditions status) \<noteq> 0"
    using find_none_count [of "Conditions status"] by (simp add: GetReadyCondition_def)
  with Some t show ?thesis
    by (simp add: SetReadyCondition_def Let_def ready_count_store)
qed

lemma SetReadyCondition_get:
  "GetReadyCondition (SetReadyCondition now status cs reason message) =
     Some ((previous_ready status)
       \<lparr> Status := cs,
         LastTransitionTime :=
           (if Status (previous_ready status) = cs
            then LastTransitionTime (previous_ready status) else Some now),
         Reason := reason, Message := message \<rparr>)"
proof (cases "GetReadyCondition status")
  case None
  then show ?thesis
    by (simp add: SetReadyCondition_def Let_def previous_ready_def GetReadyCondition_def
        find_store_ready find_append_fresh)
next
  case (Some c)
  then have t: "Type c = ConditionReady"
    unfolding GetReadyCondition_def by (auto dest: find_some_type)
  from Some t show ?thesis
    by (simp add: SetReadyCondition_def Let_def previous_ready_def GetReadyCondition_def
        find_store_ready)
qed

lemma SetReadyConditions_count:
  "ready_count (Conditions status) \<le> 1 \<Longrightarrow>
   ready_count (Conditions (SetReadyConditions status calls)) \<le> 1"
proof (induction calls arbitrary: status)
  case Nil
  then show ?case by simp
next
  case (Cons call calls)
  obtain now cs reason message where call: "call = (now, cs, reason, message)"
    by (cases call) auto
  have "ready_count (Conditions (SetReadyCondition now status cs reason message)) \<le> 1"
    using Cons.prems by (simp add: SetReadyCondition_count)
  then have "ready_count
      (Conditions (SetReadyConditions (SetReadyCondition now status cs reason message) calls)) \<le> 1"
    by (rule Cons.IH)
  then show ?case
    unfolding call by simp
qed

text \<open>
  Claim C5. For every sequence of \<^verbatim>\<open>SetReadyCondition\<close> calls on a status, at most one
  condition of type Ready stays at most one (and a status that starts with no condition
  never gets a second). After a call the Ready condition carries the new status, reason
  and message, and its \<^verbatim>\<open>lastTransitionTime\<close> is the clock reading exactly when the status
  differs from the one before; when the status is the same (an edit of reason or
  message only) the time is the one before.
\<close>

theorem SetReadyCondition_invariant:
  "(ready_count (Conditions status) \<le> 1 \<longrightarrow>
      ready_count (Conditions (SetReadyConditions status calls)) \<le> 1)
   \<and> ready_count (Conditions (SetReadyConditions \<lparr> Conditions = [] \<rparr> calls)) \<le> 1
   \<and> GetReadyCondition (SetReadyCondition now status cs reason message) =
       Some ((previous_ready status)
         \<lparr> Status := cs,
           LastTransitionTime :=
             (if Status (previous_ready status) = cs
              then LastTransitionTime (previous_ready status) else Some now),
           Reason := reason, Message := message \<rparr>)"
proof -
  have "ready_count (Conditions \<lparr> Conditions = [] \<rparr>) \<le> 1"
    by (simp add: ready_count_def)
  then have "ready_count (Conditions (SetReadyConditions \<lparr> Conditions = [] \<rparr> calls)) \<le> 1"
    by (rule SetReadyConditions_count)
  then show ?thesis
    using SetReadyConditions_count [of status calls]
      SetReadyCondition_get [of now status cs reason message]
    by blast
qed

text \<open>The theorem at concrete inputs.\<close>

theorem SetReadyCondition_invariant_witness:
  "ready_count (Conditions sample_status) = 1
   \<and> ready_count (Conditions (SetReadyConditions sample_status
        [(5, ''True'', ''Success'', ''ok''), (6, ''True'', ''Success'', ''again''),
         (7, ''False'', ''Failed'', ''lost'')])) \<le> 1
   \<and> GetReadyCondition (SetReadyCondition 5 sample_status ''False'' ''Pending'' ''still'') =
       Some (sample_condition ''False'' ''Pending'' ''still'')
   \<and> GetReadyCondition (SetReadyCondition 5 sample_status ''True'' ''Success'' ''ok'') =
       Some ((sample_condition ''True'' ''Success'' ''ok'') \<lparr> LastTransitionTime := Some 5 \<rparr>)"
proof -
  have one: "ready_count (Conditions sample_status) = 1"
    by (simp add: ready_count_def sample_status_def sample_condition_def ConditionReady_def)
  then have le: "ready_count (Conditions sample_status) \<le> 1"
    by simp
  have prev: "previous_ready sample_status = sample_condition ''False'' ''Pending'' ''waiting''"
    by (simp add: previous_ready_def GetReadyCondition_def sample_status_def
        sample_condition_def ConditionReady_def)
  from le SetReadyCondition_invariant [of sample_status
      "[(5, ''True'', ''Success'', ''ok''), (6, ''True'', ''Success'', ''again''),
        (7, ''False'', ''Failed'', ''lost'')]"]
  have 2: "ready_count (Conditions (SetReadyConditions sample_status
        [(5, ''True'', ''Success'', ''ok''), (6, ''True'', ''Success'', ''again''),
         (7, ''False'', ''Failed'', ''lost'')])) \<le> 1"
    by blast
  have 3: "GetReadyCondition (SetReadyCondition 5 sample_status ''False'' ''Pending'' ''still'') =
       Some (sample_condition ''False'' ''Pending'' ''still'')"
    using SetReadyCondition_invariant [of sample_status "[]" 5 "''False''" "''Pending''" "''still''"]
    by (simp add: prev) (simp add: sample_condition_def)
  have 4: "GetReadyCondition (SetReadyCondition 5 sample_status ''True'' ''Success'' ''ok'') =
       Some ((sample_condition ''True'' ''Success'' ''ok'') \<lparr> LastTransitionTime := Some 5 \<rparr>)"
    using SetReadyCondition_invariant [of sample_status "[]" 5 "''True''" "''Success''" "''ok''"]
    by (simp add: prev) (simp add: sample_condition_def)
  from one 2 3 4 show ?thesis by blast
qed

section \<open>The reconciliation\<close>

lemma Reconcile_gated:
  "GetCertificateRequest r req = Inr cr \<Longrightarrow>
   IssuerRefGroup cr \<noteq> GroupVersionGroup D
     \<or> CertificateRequestHasCondition cr ConditionReady ConditionTrue \<Longrightarrow>
   Reconcile L D r req =
     \<lparr> returned = Returns (no_requeue, None), updates = [], certificateRequest = Some cr \<rparr>"
  by (auto simp: Reconcile_def)

lemma Reconcile_ours:
  "GetCertificateRequest r req = Inr cr \<Longrightarrow>
   IssuerRefGroup cr = GroupVersionGroup D \<Longrightarrow>
   \<not> CertificateRequestHasCondition cr ConditionReady ConditionTrue \<Longrightarrow>
   Reconcile L D r req = deferred_update D r (reconcile_steps L D r cr)"
  by (simp add: Reconcile_def)

lemma deferred_update_returns:
  "deferred_update D r (Returns (result, err), cr) =
     \<lparr> returned =
         (case StatusUpdate r (recorded D err cr) of
            Some updateErr \<Rightarrow>
              Returns (no_requeue, NewAggregate [map_option Err err, Some (Err updateErr)])
          | None \<Rightarrow> Returns (result, map_option Err err)),
       updates = [recorded D err cr],
       certificateRequest = Some (recorded D err cr) \<rparr>"
  by (simp add: deferred_update_def recorded_def Let_def split: option.split)

lemma deferred_update_panics:
  "deferred_update D r (Panics p, cr) =
     \<lparr> returned = Panics p, updates = [cr], certificateRequest = Some cr \<rparr>"
  by (simp add: deferred_update_def)

lemma NewAggregate_pair:
  "NewAggregate [map_option Err err, Some (Err updateErr)] =
     Some (Aggregate (map Err (case err of Some m \<Rightarrow> [m, updateErr] | None \<Rightarrow> [updateErr])))"
  by (cases err) (simp_all add: NewAggregate_def List.map_filter_def)

lemma deferred_update_one:
  "\<exists>u. updates (deferred_update D r leaving) = [u]
       \<and> certificateRequest (deferred_update D r leaving) = Some u"
proof (cases leaving)
  case (Pair exit cr)
  show ?thesis
  proof (cases exit)
    case (Returns v)
    then show ?thesis
      unfolding Pair by (cases v) (simp add: deferred_update_returns)
  next
    case (Panics p)
    then show ?thesis
      unfolding Pair by (simp add: deferred_update_panics)
  qed
qed

lemma deferred_update_returned:
  "returned (deferred_update D r leaving) = Returns v \<Longrightarrow>
   \<exists>result err cr'. leaving = (Returns (result, err), cr')"
proof (cases leaving)
  case (Pair exit cr)
  assume ret: "returned (deferred_update D r leaving) = Returns v"
  show ?thesis
  proof (cases exit)
    case (Returns w)
    then show ?thesis
      unfolding Pair by (cases w) simp
  next
    case (Panics p)
    with ret show ?thesis
      unfolding Pair by (simp add: deferred_update_panics)
  qed
qed

text \<open>
  Claim C2, as amended. On a fetched request, the two first gates (a foreign group, a
  Ready condition that is already True) return success before the deferred function is
  registered and attempt no update. Past them, every path on which the invocation
  returns, success or failure, each later gate included, is a return of the statements
  after the gates, and it attempts exactly one update of the status, of the request with
  the outcome recorded. When that update fails, the invocation returns the aggregate of
  the earlier error (if there is one) and the update's error, which is an error; when
  it succeeds, the invocation returns what the statements returned.
\<close>

theorem Reconcile_status_update:
  "GetCertificateRequest r req = Inr cr \<Longrightarrow>
   (IssuerRefGroup cr \<noteq> GroupVersionGroup D
      \<or> CertificateRequestHasCondition cr ConditionReady ConditionTrue \<longrightarrow>
        updates (Reconcile L D r req) = []
        \<and> returned (Reconcile L D r req) = Returns (no_requeue, None))
   \<and> (IssuerRefGroup cr = GroupVersionGroup D
       \<and> \<not> CertificateRequestHasCondition cr ConditionReady ConditionTrue \<longrightarrow>
        (\<forall>v. returned (Reconcile L D r req) = Returns v \<longrightarrow>
              (\<exists>result err cr'. reconcile_steps L D r cr = (Returns (result, err), cr')))
        \<and> (\<forall>result err cr'. reconcile_steps L D r cr = (Returns (result, err), cr') \<longrightarrow>
              updates (Reconcile L D r req) = [recorded D err cr']
              \<and> (\<forall>updateErr. StatusUpdate r (recorded D err cr') = Some updateErr \<longrightarrow>
                    returned (Reconcile L D r req) =
                      Returns (no_requeue,
                        Some (Aggregate (map Err (case err of Some m \<Rightarrow> [m, updateErr]
                                                  | None \<Rightarrow> [updateErr])))))
              \<and> (StatusUpdate r (recorded D err cr') = None \<longrightarrow>
                    returned (Reconcile L D r req) = Returns (result, map_option Err err))))"
proof -
  assume get: "GetCertificateRequest r req = Inr cr"
  have gated: "IssuerRefGroup cr \<noteq> GroupVersionGroup D
      \<or> CertificateRequestHasCondition cr ConditionReady ConditionTrue \<Longrightarrow>
        updates (Reconcile L D r req) = []
        \<and> returned (Reconcile L D r req) = Returns (no_requeue, None)"
  proof -
    assume g: "IssuerRefGroup cr \<noteq> GroupVersionGroup D
      \<or> CertificateRequestHasCondition cr ConditionReady ConditionTrue"
    show ?thesis
      by (simp add: Reconcile_gated [OF get g])
  qed
  {
    assume ours: "IssuerRefGroup cr = GroupVersionGroup D"
      "\<not> CertificateRequestHasCondition cr ConditionReady ConditionTrue"
    have eq: "Reconcile L D r req = deferred_update D r (reconcile_steps L D r cr)"
      using get ours by (rule Reconcile_ours)
    have inv: "\<And>v. returned (Reconcile L D r req) = Returns v \<Longrightarrow>
              \<exists>result err cr'. reconcile_steps L D r cr = (Returns (result, err), cr')"
      unfolding eq by (rule deferred_update_returned)
    have ret: "\<And>result err cr'. reconcile_steps L D r cr = (Returns (result, err), cr') \<Longrightarrow>
              updates (Reconcile L D r req) = [recorded D err cr']
              \<and> (\<forall>updateErr. StatusUpdate r (recorded D err cr') = Some updateErr \<longrightarrow>
                    returned (Reconcile L D r req) =
                      Returns (no_requeue,
                        Some (Aggregate (map Err (case err of Some m \<Rightarrow> [m, updateErr]
                                                  | None \<Rightarrow> [updateErr])))))
              \<and> (StatusUpdate r (recorded D err cr') = None \<longrightarrow>
                    returned (Reconcile L D r req) = Returns (result, map_option Err err))"
      unfolding eq by (simp add: deferred_update_returns NewAggregate_pair)
    note inv ret
  }
  with gated show ?thesis by blast
qed

lemmas condition_defs = ConditionReady_def ConditionTrue_def ConditionFalse_def
  ReasonPending_def ReasonFailed_def ReasonIssued_def ReasonDenied_def

lemma sample_token:
  "getKeyvaultToken sample_libraries sample_config (PublicCloud sample_libraries) =
     Returns (Inr ''service principal c of tenant t for https://vault.azure.net'')"
  by (simp add: getKeyvaultToken_def index_string_def getServicePrincipalToken_def
      sample_libraries_def sample_config_def)

lemma sample_NewSigner:
  "NewSigner sample_libraries sample_secret ''my-vault1'' =
     Returns (Inr \<lparr> baseClient = ''service principal c of tenant t for https://vault.azure.net'',
                    vaultURL = ''https://my-vault1.vault.azure.net/'' \<rparr>)"
proof -
  have ua: "AddToUserAgent sample_libraries ''cert-manager-issuer'' = None"
    by (simp add: sample_libraries_def)
  have env: "parseCloudEnvironment sample_libraries (cloud sample_config) =
      Inr (PublicCloud sample_libraries)"
    by (simp add: parseCloudEnvironment_def sample_config_def)
  show ?thesis
    by (simp only: NewSigner_def ua sample_secret_config env sample_vault_url sample_token
        option.case sum.case outcome.case)
qed

lemma sample_NewSigner_short:
  "NewSigner sample_libraries sample_secret ''ab'' =
     Returns (Inl (''invalid vault name: '' @ [CHR 0x22] @ ''ab'' @ [CHR 0x22]
                   @ '', must be between 3 and 24 chars''))"
proof -
  have ua: "AddToUserAgent sample_libraries ''cert-manager-issuer'' = None"
    by (simp add: sample_libraries_def)
  have env: "parseCloudEnvironment sample_libraries (cloud sample_config) =
      Inr (PublicCloud sample_libraries)"
    by (simp add: parseCloudEnvironment_def sample_config_def)
  have url: "getVaultURL sample_libraries (PublicCloud sample_libraries) ''ab'' =
      Inl (''invalid vault name: '' @ [CHR 0x22] @ ''ab'' @ [CHR 0x22]
           @ '', must be between 3 and 24 chars'')"
    by (simp add: getVaultURL_def sample_libraries_def sample_quote_def)
  show ?thesis
    by (simp only: NewSigner_def ua sample_secret_config env url
        option.case sum.case outcome.case)
qed

lemma sample_Sign:
  "Sign sample_libraries s ''csr'' name issuerName = Inr []"
  by (simp add: Sign_def sample_libraries_def)

lemma sample_steps_issued:
  "reconcile_steps sample_libraries sample_declarations
      (sample_reconciler sample_request ''my-vault1'' updateErr) sample_request =
     (Returns (no_requeue, None),
      sample_request
        \<lparr> StatusConditions :=
            [\<lparr> Type = ''Ready'', Status = ''True'', LastTransitionTime = Some 100,
               Reason = ''Issued'', Message = ''Signed'' \<rparr>] \<rparr>)"
  unfolding reconcile_steps_def
  by (simp add: sample_reconciler_def sample_request_def sample_issuer_def
      CertificateRequestIsDenied_def GetCertificateRequestCondition_def issuer_names_def
      IsReady_def GetReadyCondition_def sample_NewSigner sample_Sign setReadyCondition_def
      SetCertificateRequestCondition_def sample_declarations_def sample_condition_def
      condition_defs)

lemma sample_steps_short:
  "reconcile_steps sample_libraries sample_declarations
      (sample_reconciler sample_request ''ab'' updateErr) sample_request =
     (Returns (no_requeue,
        Some (''failed to get issuer client for my-issuer: invalid vault name: ''
              @ [CHR 0x22] @ ''ab'' @ [CHR 0x22] @ '', must be between 3 and 24 chars'')),
      sample_request)"
  unfolding reconcile_steps_def
  by (simp add: sample_reconciler_def sample_request_def sample_issuer_def
      CertificateRequestIsDenied_def GetCertificateRequestCondition_def issuer_names_def
      IsReady_def GetReadyCondition_def sample_NewSigner_short setReadyCondition_def
      SetCertificateRequestCondition_def sample_declarations_def sample_condition_def
      condition_defs)

lemma sample_ours:
  "GetCertificateRequest (sample_reconciler cr vault updateErr) req = Inr cr"
  "StatusUpdate (sample_reconciler cr vault updateErr) u = updateErr"
  "ClockNow (sample_reconciler cr vault updateErr) = 7"
  "IssuerRefGroup sample_request = GroupVersionGroup sample_declarations"
  "\<not> CertificateRequestHasCondition sample_request ConditionReady ConditionTrue"
  by (simp_all add: sample_reconciler_def sample_request_def sample_declarations_def
      CertificateRequestHasCondition_def sample_condition_def condition_defs)

lemma set_condition_find:
  "find (\<lambda>c. Type c = Type new) (set_condition now new cs) =
     Some (new \<lparr> LastTransitionTime :=
                   (case find (\<lambda>c. Type c = Type new) cs of
                      Some c \<Rightarrow> if Status c = Status new then LastTransitionTime c else Some now
                    | None \<Rightarrow> Some now) \<rparr>)"
  by (induction cs) auto

lemma set_condition_list_ex:
  "\<not> list_ex (\<lambda>c. Type c = T \<and> Status c = S) cs \<Longrightarrow> Status new \<noteq> S \<Longrightarrow>
   \<not> list_ex (\<lambda>c. Type c = T \<and> Status c = S) (set_condition now new cs)"
  by (induction cs) auto

lemma setReadyCondition_frame:
  "Approval (setReadyCondition D cr status reason message) = Approval cr"
  "IssuerRefGroup (setReadyCondition D cr status reason message) = IssuerRefGroup cr"
  "StatusFailureTime (setReadyCondition D cr status reason message) = StatusFailureTime cr"
  "StatusCertificate (setReadyCondition D cr status reason message) = StatusCertificate cr"
  by (simp_all add: setReadyCondition_def SetCertificateRequestCondition_def)

lemma setReadyCondition_get:
  "\<exists>c. GetCertificateRequestCondition (setReadyCondition D cr status reason message)
          ConditionReady = Some c
       \<and> Status c = status \<and> Reason c = reason \<and> Message c = message"
  using set_condition_find [of "\<lparr> Type = ConditionReady, Status = status,
      LastTransitionTime = None, Reason = reason, Message = message \<rparr>"
      "cmutilClockNow D" "StatusConditions cr"]
  by (simp add: setReadyCondition_def SetCertificateRequestCondition_def
      GetCertificateRequestCondition_def)

lemma setReadyCondition_not_true:
  "\<not> CertificateRequestHasCondition cr ConditionReady ConditionTrue \<Longrightarrow>
   status \<noteq> ConditionTrue \<Longrightarrow>
   \<not> CertificateRequestHasCondition (setReadyCondition D cr status reason message)
       ConditionReady ConditionTrue"
  by (simp add: CertificateRequestHasCondition_def setReadyCondition_def
      SetCertificateRequestCondition_def set_condition_list_ex)

lemma reconcile_steps_denied:
  "CertificateRequestIsDenied cr \<Longrightarrow>
   reconcile_steps L D r cr =
     (Returns (no_requeue, None),
      setReadyCondition D
        (if StatusFailureTime cr = None then cr \<lparr> StatusFailureTime := Some (ClockNow r) \<rparr>
         else cr)
        ConditionFalse ReasonDenied
        ''The CertificateRequest was denied by an approval controller'')"
  by (simp add: reconcile_steps_def Let_def)

lemma Reconcile_denied_run:
  assumes "GetCertificateRequest r req = Inr cr"
    and "IssuerRefGroup cr = GroupVersionGroup D"
    and "\<not> CertificateRequestHasCondition cr ConditionReady ConditionTrue"
    and "CertificateRequestIsDenied cr"
  shows "Reconcile L D r req =
     deferred_update D r
       (Returns (no_requeue, None),
        setReadyCondition D
          (if StatusFailureTime cr = None then cr \<lparr> StatusFailureTime := Some (ClockNow r) \<rparr>
           else cr)
          ConditionFalse ReasonDenied
          ''The CertificateRequest was denied by an approval controller'')"
  using assms by (simp add: Reconcile_ours reconcile_steps_denied)

subsection \<open>A denied request\<close>

text \<open>
  Claim C4, as amended. For every request marked denied whose group matches and that is
  not Ready with status True, the invocation attempts one update of the request with
  \<^verbatim>\<open>failureTime\<close> set to the clock reading only when it was not set (kept otherwise) and
  with Ready set to False and Denied. It returns success, with no requeue, when that
  update succeeds; when the update fails it returns the update's error. A second
  invocation on the request as updated leaves \<^verbatim>\<open>failureTime\<close> as the first one set it.
\<close>

theorem Reconcile_denied:
  assumes get: "GetCertificateRequest r req = Inr cr"
    and grp: "IssuerRefGroup cr = GroupVersionGroup D"
    and nrdy: "\<not> CertificateRequestHasCondition cr ConditionReady ConditionTrue"
    and den: "CertificateRequestIsDenied cr"
  shows "\<exists>u c. updates (Reconcile L D r req) = [u]
      \<and> StatusFailureTime u =
          (case StatusFailureTime cr of None \<Rightarrow> Some (ClockNow r) | Some t \<Rightarrow> Some t)
      \<and> GetCertificateRequestCondition u ConditionReady = Some c
      \<and> Status c = ConditionFalse \<and> Reason c = ReasonDenied
      \<and> (StatusUpdate r u = None \<longrightarrow>
           returned (Reconcile L D r req) = Returns (no_requeue, None))
      \<and> (\<forall>e. StatusUpdate r u = Some e \<longrightarrow>
           returned (Reconcile L D r req) = Returns (no_requeue, Some (Aggregate [Err e])))
      \<and> (\<forall>r'. GetCertificateRequest r' req = Inr u \<longrightarrow>
           (\<exists>u'. updates (Reconcile L D r' req) = [u']
                \<and> StatusFailureTime u' = StatusFailureTime u))"
proof -
  let ?msg = "''The CertificateRequest was denied by an approval controller''"
  let ?cr1 = "if StatusFailureTime cr = None
              then cr \<lparr> StatusFailureTime := Some (ClockNow r) \<rparr> else cr"
  let ?u = "setReadyCondition D ?cr1 ConditionFalse ReasonDenied ?msg"
  have run: "Reconcile L D r req = deferred_update D r (Returns (no_requeue, None), ?u)"
    using get grp nrdy den by (rule Reconcile_denied_run)
  have upd: "updates (Reconcile L D r req) = [?u]"
    unfolding run by (simp add: deferred_update_returns recorded_def)
  have ft: "StatusFailureTime ?u =
      (case StatusFailureTime cr of None \<Rightarrow> Some (ClockNow r) | Some t \<Rightarrow> Some t)"
    by (simp add: setReadyCondition_frame split: option.split)
  obtain c where c: "GetCertificateRequestCondition ?u ConditionReady = Some c"
      "Status c = ConditionFalse" "Reason c = ReasonDenied"
    using setReadyCondition_get [of D ?cr1 ConditionFalse ReasonDenied ?msg] by blast
  have ok: "StatusUpdate r ?u = None \<Longrightarrow>
      returned (Reconcile L D r req) = Returns (no_requeue, None)"
    unfolding run by (simp add: deferred_update_returns recorded_def)
  have ko: "\<And>e. StatusUpdate r ?u = Some e \<Longrightarrow>
      returned (Reconcile L D r req) = Returns (no_requeue, Some (Aggregate [Err e]))"
    unfolding run by (simp add: deferred_update_returns recorded_def NewAggregate_def List.map_filter_def)
  have again_upd: "updates (Reconcile L D r' req) =
        [setReadyCondition D ?u ConditionFalse ReasonDenied ?msg]"
    if get': "GetCertificateRequest r' req = Inr ?u" for r'
  proof -
    have grp': "IssuerRefGroup ?u = GroupVersionGroup D"
      using grp by (simp add: setReadyCondition_frame)
    have "\<not> CertificateRequestHasCondition ?cr1 ConditionReady ConditionTrue"
      using nrdy by (simp add: CertificateRequestHasCondition_def)
    then have nrdy': "\<not> CertificateRequestHasCondition ?u ConditionReady ConditionTrue"
      by (rule setReadyCondition_not_true) (simp add: ConditionFalse_def ConditionTrue_def)
    have den': "CertificateRequestIsDenied ?u"
      using den by (simp add: CertificateRequestIsDenied_def setReadyCondition_frame)
    have set: "StatusFailureTime ?u \<noteq> None"
      by (simp add: setReadyCondition_frame)
    have "Reconcile L D r' req =
        deferred_update D r'
          (Returns (no_requeue, None),
           setReadyCondition D
             (if StatusFailureTime ?u = None
              then ?u \<lparr> StatusFailureTime := Some (ClockNow r') \<rparr> else ?u)
             ConditionFalse ReasonDenied ?msg)"
      using get' grp' nrdy' den' by (rule Reconcile_denied_run)
    then show ?thesis
      using set by (simp add: deferred_update_returns recorded_def)
  qed
  show ?thesis
  proof (intro exI conjI allI impI)
    show "updates (Reconcile L D r req) = [?u]"
      by (rule upd)
    show "StatusFailureTime ?u =
        (case StatusFailureTime cr of None \<Rightarrow> Some (ClockNow r) | Some t \<Rightarrow> Some t)"
      by (rule ft)
    show "GetCertificateRequestCondition ?u ConditionReady = Some c"
      by (rule c)
    show "Status c = ConditionFalse"
      by (rule c)
    show "Reason c = ReasonDenied"
      by (rule c)
    show "returned (Reconcile L D r req) = Returns (no_requeue, None)"
      if "StatusUpdate r ?u = None"
      using that by (rule ok)
    show "returned (Reconcile L D r req) = Returns (no_requeue, Some (Aggregate [Err e]))"
      if "StatusUpdate r ?u = Some e" for e
      using that by (rule ko)
    show "updates (Reconcile L D r' req) = [setReadyCondition D ?u ConditionFalse ReasonDenied ?msg]"
      if "GetCertificateRequest r' req = Inr ?u" for r'
      using that by (rule again_upd)
    show "StatusFailureTime (setReadyCondition D ?u ConditionFalse ReasonDenied ?msg) =
        StatusFailureTime ?u"
      by (simp add: setReadyCondition_frame)
  qed
qed

subsection \<open>A request of another group\<close>

text \<open>
  Claim C8. For every request whose \<^verbatim>\<open>issuerRef.group\<close> differs from the expected group,
  the invocation returns success with no requeue, attempts no update, and leaves its
  copy of the request as fetched: no condition is added or changed and no other field
  of the status is modified.
\<close>

theorem Reconcile_foreign_group:
  "GetCertificateRequest r req = Inr cr \<Longrightarrow>
   IssuerRefGroup cr \<noteq> GroupVersionGroup D \<Longrightarrow>
   Reconcile L D r req =
     \<lparr> returned = Returns (no_requeue, None), updates = [], certificateRequest = Some cr \<rparr>"
  by (simp add: Reconcile_gated)

text \<open>The theorem at concrete inputs.\<close>

theorem Reconcile_foreign_group_witness:
  "Reconcile sample_libraries sample_declarations
      (sample_reconciler (sample_request \<lparr> IssuerRefGroup := ''cert-manager.io'' \<rparr>)
         ''my-vault1'' None)
      (''default'', ''req1'') =
     \<lparr> returned = Returns (no_requeue, None), updates = [],
       certificateRequest = Some (sample_request \<lparr> IssuerRefGroup := ''cert-manager.io'' \<rparr>) \<rparr>"
proof -
  have "IssuerRefGroup (sample_request \<lparr> IssuerRefGroup := ''cert-manager.io'' \<rparr>)
      \<noteq> GroupVersionGroup sample_declarations"
    by (simp add: sample_declarations_def)
  with sample_ours(1) show ?thesis
    by (rule Reconcile_foreign_group)
qed

subsection \<open>The update of the status on the way out\<close>

text \<open>
  Claim C2 as first stated fails: a request that is already Ready with status True, and
  one of another group, leave through an early gate with no attempt to update the
  status.
\<close>

theorem Reconcile_gates_counterexample:
  "updates (Reconcile sample_libraries sample_declarations
      (sample_reconciler
         (sample_request \<lparr> StatusConditions := [sample_condition ''True'' ''Issued'' ''Signed''] \<rparr>)
         ''my-vault1'' None)
      (''default'', ''req1'')) = []
   \<and> updates (Reconcile sample_libraries sample_declarations
      (sample_reconciler (sample_request \<lparr> IssuerRefGroup := ''example.org'' \<rparr>)
         ''my-vault1'' None)
      (''default'', ''req1'')) = []"
  by (simp add: Reconcile_def sample_reconciler_def sample_request_def sample_declarations_def
      CertificateRequestHasCondition_def sample_condition_def condition_defs)

text \<open>The theorem at concrete inputs.\<close>

theorem Reconcile_status_update_witness:
  "updates (Reconcile sample_libraries sample_declarations
      (sample_reconciler sample_request ''ab'' (Some ''conflict'')) (''default'', ''req1'')) =
     [sample_request
        \<lparr> StatusConditions :=
            [sample_condition ''False'' ''Pending''
               (''failed to get issuer client for my-issuer: invalid vault name: ''
                @ [CHR 0x22] @ ''ab'' @ [CHR 0x22] @ '', must be between 3 and 24 chars'')] \<rparr>]
   \<and> returned (Reconcile sample_libraries sample_declarations
      (sample_reconciler sample_request ''ab'' (Some ''conflict'')) (''default'', ''req1'')) =
     Returns (no_requeue,
       Some (Aggregate
         [Err (''failed to get issuer client for my-issuer: invalid vault name: ''
               @ [CHR 0x22] @ ''ab'' @ [CHR 0x22] @ '', must be between 3 and 24 chars''),
          Err ''conflict'']))
   \<and> returned (Reconcile sample_libraries sample_declarations
      (sample_reconciler sample_request ''my-vault1'' None) (''default'', ''req1'')) =
     Returns (no_requeue, None)
   \<and> updates (Reconcile sample_libraries sample_declarations
      (sample_reconciler (sample_request \<lparr> IssuerRefGroup := ''example.org'' \<rparr>)
         ''my-vault1'' None)
      (''default'', ''req1'')) = []"
proof -
  let ?m = "''failed to get issuer client for my-issuer: invalid vault name: ''
               @ [CHR 0x22] @ ''ab'' @ [CHR 0x22] @ '', must be between 3 and 24 chars''"
  let ?r = "sample_reconciler sample_request ''ab'' (Some ''conflict'')"
  let ?r' = "sample_reconciler sample_request ''my-vault1'' None"
  let ?issued = "sample_request
        \<lparr> StatusConditions :=
            [\<lparr> Type = ''Ready'', Status = ''True'', LastTransitionTime = Some 100,
               Reason = ''Issued'', Message = ''Signed'' \<rparr>] \<rparr>"
  have rec: "recorded sample_declarations (Some ?m) sample_request =
      sample_request \<lparr> StatusConditions := [sample_condition ''False'' ''Pending'' ?m] \<rparr>"
    by (simp add: recorded_def setReadyCondition_def SetCertificateRequestCondition_def
        sample_request_def sample_condition_def sample_declarations_def condition_defs)
  note a = Reconcile_status_update [where r = ?r and req = "(''default'', ''req1'')"
      and cr = sample_request and D = sample_declarations and L = sample_libraries,
      OF sample_ours(1)]
  from a sample_ours(4,5) sample_steps_short [of "Some ''conflict''"]
  have 1: "updates (Reconcile sample_libraries sample_declarations ?r (''default'', ''req1'')) =
      [recorded sample_declarations (Some ?m) sample_request]"
    by blast
  from a sample_ours(4,5) sample_steps_short [of "Some ''conflict''"]
    sample_ours(2) [of sample_request "''ab''" "Some ''conflict''"]
  have 2: "returned (Reconcile sample_libraries sample_declarations ?r (''default'', ''req1'')) =
      Returns (no_requeue, Some (Aggregate (map Err
        (case Some ?m of Some m \<Rightarrow> [m, ''conflict''] | None \<Rightarrow> [''conflict'']))))"
    by blast
  note b = Reconcile_status_update [where r = ?r' and req = "(''default'', ''req1'')"
      and cr = sample_request and D = sample_declarations and L = sample_libraries,
      OF sample_ours(1)]
  from b sample_ours(4,5) sample_steps_issued [of None]
    sample_ours(2) [of sample_request "''my-vault1''" None]
  have 3: "returned (Reconcile sample_libraries sample_declarations ?r' (''default'', ''req1'')) =
      Returns (no_requeue, map_option Err None)"
    by blast
  have foreign: "IssuerRefGroup (sample_request \<lparr> IssuerRefGroup := ''example.org'' \<rparr>)
      \<noteq> GroupVersionGroup sample_declarations"
    by (simp add: sample_declarations_def)
  note c = Reconcile_status_update [where req = "(''default'', ''req1'')"
      and cr = "sample_request \<lparr> IssuerRefGroup := ''example.org'' \<rparr>"
      and D = sample_declarations and L = sample_libraries, OF sample_ours(1)]
  from c foreign
  have 4: "updates (Reconcile sample_libraries sample_declarations
      (sample_reconciler (sample_request \<lparr> IssuerRefGroup := ''example.org'' \<rparr>)
         ''my-vault1'' None)
      (''default'', ''req1'')) = []"
    by blast
  from 1 2 3 4 rec show ?thesis
    by simp
qed

subsection \<open>A denied request, at concrete inputs\<close>

text \<open>
  Claim C4 as first stated fails: for a denied request whose status update fails, the
  invocation returns an error, not success.
\<close>

theorem Reconcile_denied_counterexample:
  "CertificateRequestIsDenied (sample_request \<lparr> Approval := Denied \<rparr>)
   \<and> returned (Reconcile sample_libraries sample_declarations
      (sample_reconciler (sample_request \<lparr> Approval := Denied \<rparr>) ''my-vault1''
         (Some ''conflict''))
      (''default'', ''req1'')) =
     Returns (no_requeue, Some (Aggregate [Err ''conflict'']))"
  by (simp add: Reconcile_def reconcile_steps_def deferred_update_def NewAggregate_def
      List.map_filter_def CertificateRequestIsDenied_def CertificateRequestHasCondition_def
      sample_reconciler_def sample_request_def sample_declarations_def sample_condition_def
      condition_defs)

text \<open>The theorem at concrete inputs.\<close>

theorem Reconcile_denied_witness:
  "updates (Reconcile sample_libraries sample_declarations
      (sample_reconciler (sample_request \<lparr> Approval := Denied \<rparr>) ''my-vault1'' None)
      (''default'', ''req1'')) =
     [sample_request
        \<lparr> Approval := Denied, StatusFailureTime := Some 7,
          StatusConditions :=
            [sample_condition ''False'' ''Denied''
               ''The CertificateRequest was denied by an approval controller''] \<rparr>]
   \<and> returned (Reconcile sample_libraries sample_declarations
      (sample_reconciler (sample_request \<lparr> Approval := Denied \<rparr>) ''my-vault1'' None)
      (''default'', ''req1'')) =
     Returns (no_requeue, None)
   \<and> updates (Reconcile sample_libraries sample_declarations
      (sample_reconciler
         (sample_request
            \<lparr> Approval := Denied, StatusFailureTime := Some 7,
              StatusConditions :=
                [sample_condition ''False'' ''Denied''
                   ''The CertificateRequest was denied by an approval controller''] \<rparr>)
         ''my-vault1'' None \<lparr> ClockNow := 9 \<rparr>)
      (''default'', ''req1'')) =
     [sample_request
        \<lparr> Approval := Denied, StatusFailureTime := Some 7,
          StatusConditions :=
            [sample_condition ''False'' ''Denied''
               ''The CertificateRequest was denied by an approval controller''] \<rparr>]"
proof -
  let ?cr = "sample_request \<lparr> Approval := Denied \<rparr>"
  let ?r = "sample_reconciler ?cr ''my-vault1'' None"
  let ?u0 = "sample_request
        \<lparr> Approval := Denied, StatusFailureTime := Some 7,
          StatusConditions :=
            [sample_condition ''False'' ''Denied''
               ''The CertificateRequest was denied by an approval controller''] \<rparr>"
  let ?r2 = "sample_reconciler ?u0 ''my-vault1'' None \<lparr> ClockNow := 9 \<rparr>"
  have grp: "IssuerRefGroup ?cr = GroupVersionGroup sample_declarations"
    using sample_ours(4) by simp
  have nrdy: "\<not> CertificateRequestHasCondition ?cr ConditionReady ConditionTrue"
    using sample_ours(5) by (simp add: CertificateRequestHasCondition_def)
  have den: "CertificateRequestIsDenied ?cr"
    by (simp add: CertificateRequestIsDenied_def)
  have ev: "updates (Reconcile sample_libraries sample_declarations ?r (''default'', ''req1'')) = [?u0]"
    by (simp add: Reconcile_def reconcile_steps_def deferred_update_def
      CertificateRequestIsDenied_def CertificateRequestHasCondition_def
      setReadyCondition_def SetCertificateRequestCondition_def
      sample_reconciler_def sample_request_def sample_declarations_def sample_condition_def
      condition_defs)
  have get2: "GetCertificateRequest ?r2 (''default'', ''req1'') = Inr ?u0"
    by (simp add: sample_reconciler_def)
  have ft: "StatusFailureTime sample_request = None"
    by (simp add: sample_request_def)
  from Reconcile_denied [where r = ?r and req = "(''default'', ''req1'')"
      and L = sample_libraries, OF sample_ours(1) grp nrdy den]
  obtain u c where u: "updates (Reconcile sample_libraries sample_declarations ?r
        (''default'', ''req1'')) = [u]"
      "StatusUpdate ?r u = None \<longrightarrow>
         returned (Reconcile sample_libraries sample_declarations ?r (''default'', ''req1'')) =
           Returns (no_requeue, None)"
      "\<forall>r'. GetCertificateRequest r' (''default'', ''req1'') = Inr u \<longrightarrow>
           (\<exists>u'. updates (Reconcile sample_libraries sample_declarations r'
                  (''default'', ''req1'')) = [u']
                \<and> StatusFailureTime u' = StatusFailureTime u)"
    by (elim exE conjE) (rule that, assumption+)
  from u(1) ev have eq: "u = ?u0"
    by simp
  from u(2) sample_ours(2) [of ?cr "''my-vault1''" None u]
  have 2: "returned (Reconcile sample_libraries sample_declarations ?r (''default'', ''req1'')) =
           Returns (no_requeue, None)"
    by simp
  from u(3) get2 obtain u' where u':
    "updates (Reconcile sample_libraries sample_declarations ?r2 (''default'', ''req1'')) = [u']"
    "StatusFailureTime u' = StatusFailureTime ?u0"
    unfolding eq by blast
  have ev2: "updates (Reconcile sample_libraries sample_declarations ?r2 (''default'', ''req1'')) = [?u0]"
    by (simp add: Reconcile_def reconcile_steps_def deferred_update_def
      CertificateRequestIsDenied_def CertificateRequestHasCondition_def
      setReadyCondition_def SetCertificateRequestCondition_def
      sample_reconciler_def sample_request_def sample_declarations_def sample_condition_def
      condition_defs)
  from u'(1) ev2 have 3: "u' = ?u0"
    by simp
  from ev 2 u'(1) 3 show ?thesis by simp
qed

subsection \<open>Signing\<close>

lemma Sign_returns_nil:
  "Sign L s certificateSigningRequest name issuerName = Inr signed \<Longrightarrow> signed = []"
  by (auto simp: Sign_def Let_def split: sum.splits option.splits)

text \<open>
  Claim C1, evaluated on the code. A request that passes every gate, with a ready issuer,
  a service-principal secret, a valid vault name and a backend that accepts the
  certificate, ends Ready with status True and reason Issued, but the certificate
  bytes stored in its status are empty: \<^verbatim>\<open>Sign\<close> returns the nil slice on success.
\<close>

theorem Reconcile_issued_empty_certificate:
  "Reconcile sample_libraries sample_declarations
      (sample_reconciler sample_request ''my-vault1'' None) (''default'', ''req1'') =
     \<lparr> returned = Returns (no_requeue, None),
       updates =
         [sample_request
            \<lparr> StatusConditions :=
                [\<lparr> Type = ''Ready'', Status = ''True'', LastTransitionTime = Some 100,
                   Reason = ''Issued'', Message = ''Signed'' \<rparr>] \<rparr>],
       certificateRequest =
         Some (sample_request
            \<lparr> StatusConditions :=
                [\<lparr> Type = ''Ready'', Status = ''True'', LastTransitionTime = Some 100,
                   Reason = ''Issued'', Message = ''Signed'' \<rparr>] \<rparr>) \<rparr>
   \<and> StatusCertificate
        (sample_request
            \<lparr> StatusConditions :=
                [\<lparr> Type = ''Ready'', Status = ''True'', LastTransitionTime = Some 100,
                   Reason = ''Issued'', Message = ''Signed'' \<rparr>] \<rparr>) = []"
proof -
  have "Reconcile sample_libraries sample_declarations
      (sample_reconciler sample_request ''my-vault1'' None) (''default'', ''req1'') =
    deferred_update sample_declarations (sample_reconciler sample_request ''my-vault1'' None)
      (reconcile_steps sample_libraries sample_declarations
         (sample_reconciler sample_request ''my-vault1'' None) sample_request)"
    using sample_ours(1) sample_ours(4) sample_ours(5) by (rule Reconcile_ours)
  then show ?thesis
    by (simp add: sample_steps_issued deferred_update_returns recorded_def sample_ours(2))
       (simp add: sample_request_def)
qed

text \<open>
  Claim C3, evaluated on the code. When the signer cannot be built (here the vault name
  \<^verbatim>\<open>ab\<close> is too short) the invocation returns an error and records it as Ready False
  and Pending, but the message is \<^verbatim>\<open>failed to get issuer client for ...\<close>: the declared
  \<^verbatim>\<open>errSignerBuilder\<close>, \<^verbatim>\<open>failed to build the signer\<close>, is not part of it.
\<close>

theorem Reconcile_signer_build_message:
  "Reconcile sample_libraries sample_declarations
      (sample_reconciler sample_request ''ab'' None) (''default'', ''req1'') =
     \<lparr> returned =
         Returns (no_requeue,
           Some (Err (''failed to get issuer client for my-issuer: invalid vault name: ''
                      @ [CHR 0x22] @ ''ab'' @ [CHR 0x22]
                      @ '', must be between 3 and 24 chars''))),
       updates =
         [sample_request
            \<lparr> StatusConditions :=
                [sample_condition ''False'' ''Pending''
                   (''failed to get issuer client for my-issuer: invalid vault name: ''
                    @ [CHR 0x22] @ ''ab'' @ [CHR 0x22]
                    @ '', must be between 3 and 24 chars'')] \<rparr>],
       certificateRequest =
         Some (sample_request
            \<lparr> StatusConditions :=
                [sample_condition ''False'' ''Pending''
                   (''failed to get issuer client for my-issuer: invalid vault name: ''
                    @ [CHR 0x22] @ ''ab'' @ [CHR 0x22]
                    @ '', must be between 3 and 24 chars'')] \<rparr>) \<rparr>
   \<and> errSignerBuilder = ''failed to build the signer''"
proof -
  have "Reconcile sample_libraries sample_declarations
      (sample_reconciler sample_request ''ab'' None) (''default'', ''req1'') =
    deferred_update sample_declarations (sample_reconciler sample_request ''ab'' None)
      (reconcile_steps sample_libraries sample_declarations
         (sample_reconciler sample_request ''ab'' None) sample_request)"
    using sample_ours(1) sample_ours(4) sample_ours(5) by (rule Reconcile_ours)
  then show ?thesis
    by (simp add: sample_steps_short deferred_update_returns recorded_def sample_ours(2)
        errSignerBuilder_def)
       (simp add: setReadyCondition_def SetCertificateRequestCondition_def
        sample_request_def sample_condition_def sample_declarations_def condition_defs)
qed

end
